theory Spec2Isabelle
  imports Main "HOL-Library.Word" "HOL-Library.Sublist" "HOL-Library.Char_ord" "HOL-Library.List_Lexorder"
begin

unbundle bit_operations_syntax

section \<open>Bloom filter (package logstorage, bloomfilter)\<close>

text \<open>
  Go's \<open>uint64\<close> is \<open>64 word\<close>, a \<open>[]byte\<close> is a list of \<open>8 word\<close>, a \<open>string\<close> is a
  \<open>char list\<close> (a sequence of bytes). Lengths and indices are \<open>nat\<close>: a Go slice of
  8-byte words has fewer than \<open>2 ^ 61\<close> elements, so \<open>len(bits) * 64\<close> never wraps.
  A runtime panic (index out of range, integer division by zero) is the value \<open>None\<close>.
\<close>

type_synonym u64 = "64 word"
type_synonym byte = "8 word"

definition bloomFilterHashesCount :: nat where
  "bloomFilterHashesCount = 6"

definition bloomFilterBitsPerItem :: nat where
  "bloomFilterBitsPerItem = 16"

record bloomFilter =
  bits :: "u64 list"

datatype error = UnmarshalSizeError nat | RuntimePanic

text \<open>\<open>bytesutil.ToUnsafeBytes\<close>: the bytes of a string, unchanged.\<close>

definition ToUnsafeBytes :: "string \<Rightarrow> byte list" where
  "ToUnsafeBytes s = map of_char s"

text \<open>
  Modelled from the spec: \<open>encoding.MarshalUint64\<close> and \<open>encoding.UnmarshalUint64\<close>
  (lib/encoding) are not among the sources. The spec: "Serialization: sequence of 8-byte
  little-endian words, no header". \<open>UnmarshalUint64\<close> reads \<open>src[:8]\<close>, which panics on a
  shorter slice.
\<close>

definition MarshalUint64 :: "byte list \<Rightarrow> u64 \<Rightarrow> byte list" where
  "MarshalUint64 dst u = dst @ map (\<lambda>k. ucast (drop_bit (8 * k) u)) [0..<8]"

definition UnmarshalUint64 :: "byte list \<Rightarrow> u64 option" where
  "UnmarshalUint64 src =
     (if length src < 8 then None
      else Some (foldr (\<lambda>b acc. ucast b OR push_bit 8 acc) (take 8 src) 0))"

text \<open>\<open>reset\<close>: \<open>clear(bf.bits); bf.bits = bf.bits[:0]\<close>.\<close>

definition reset :: "bloomFilter \<Rightarrow> bloomFilter" where
  "reset bf = bf\<lparr>bits := []\<rparr>"

text \<open>\<open>marshal\<close>: appends every word of \<open>bf.bits\<close> to \<open>dst\<close>.\<close>

fun marshal_words :: "byte list \<Rightarrow> u64 list \<Rightarrow> byte list" where
  "marshal_words dst [] = dst"
| "marshal_words dst (word # ws) = marshal_words (MarshalUint64 dst word) ws"

definition marshal :: "bloomFilter \<Rightarrow> byte list \<Rightarrow> byte list" where
  "marshal bf dst = marshal_words dst (bits bf)"

text \<open>
  \<open>unmarshal\<close>. \<open>slicesutil.SetLength\<close> (lib/slicesutil) is not among the sources and is a
  parameter: it returns a slice of the requested length, whose elements past the old
  length may hold anything (spare capacity is not cleared). The loop
  \<open>for i := range bits { bits[i] = UnmarshalUint64(src); src = src[8:] }\<close> is
  \<open>unmarshal_words\<close> over the indices \<open>[0..<len(bits)]\<close>.
\<close>

fun unmarshal_words :: "nat list \<Rightarrow> u64 list \<Rightarrow> byte list \<Rightarrow> u64 list option" where
  "unmarshal_words [] bs src = Some bs"
| "unmarshal_words (i # is) bs src =
     (case UnmarshalUint64 src of
        None \<Rightarrow> None
      | Some w \<Rightarrow>
          if i < length bs \<and> 8 \<le> length src
          then unmarshal_words is (bs[i := w]) (drop 8 src)
          else None)"

definition unmarshal ::
  "(u64 list \<Rightarrow> nat \<Rightarrow> u64 list) \<Rightarrow> bloomFilter \<Rightarrow> byte list \<Rightarrow> error + bloomFilter" where
  "unmarshal SetLength bf src =
     (if length src mod 8 \<noteq> 0 then Inl (UnmarshalSizeError (length src))
      else
        let bf1 = reset bf;
            wordsCount = length src div 8;
            bs = SetLength (bits bf1) wordsCount
        in case unmarshal_words [0..<length bs] bs src of
             None \<Rightarrow> Inl RuntimePanic
           | Some bs' \<Rightarrow> Inr (bf1\<lparr>bits := bs'\<rparr>))"

text \<open>
  \<open>initBloomFilter\<close> sets, for every hash \<open>h\<close>, bit \<open>h % maxBits\<close> of \<open>bits\<close>;
  \<open>h % maxBits\<close> panics when \<open>maxBits\<close> is 0, \<open>bits[i]\<close> when \<open>i\<close> is out of range.
\<close>

fun initBloomFilter :: "u64 list \<Rightarrow> u64 list \<Rightarrow> u64 list option" where
  "initBloomFilter bs [] = Some bs"
| "initBloomFilter bs (h # hs) =
     (let maxBits = length bs * 64 in
      if maxBits = 0 then None
      else
        let idx = unat h mod maxBits;
            i = idx div 64;
            j = idx mod 64;
            mask = (push_bit j 1 :: u64)
        in if i < length bs
           then let w = bs ! i
                in initBloomFilter (if w AND mask = 0 then bs[i := w OR mask] else bs) hs
           else None)"

text \<open>
  \<open>appendTokensHashes\<close>: for each token the seed \<open>*hp = Sum64(token)\<close>, then six times
  \<open>h := Sum64(buf[:]); (*hp)++; dst = append(dst, h)\<close>, where \<open>buf\<close> is the 8 bytes of
  \<open>*hp\<close> in memory (little-endian, as the spec states). \<open>xxhash.Sum64\<close> is a parameter.
  The leading \<open>dst = SetLength(dst, dstLen+hashesCount); dst = dst[:dstLen]\<close> reserves
  capacity and restores the length.
\<close>

definition hp_buf :: "u64 \<Rightarrow> byte list" where
  "hp_buf hp = MarshalUint64 [] hp"

fun token_hashes :: "(byte list \<Rightarrow> u64) \<Rightarrow> nat \<Rightarrow> u64 \<Rightarrow> u64 list \<Rightarrow> u64 list" where
  "token_hashes Sum64 0 hp dst = dst"
| "token_hashes Sum64 (Suc n) hp dst = token_hashes Sum64 n (hp + 1) (dst @ [Sum64 (hp_buf hp)])"

fun tokens_hashes_loop :: "(byte list \<Rightarrow> u64) \<Rightarrow> u64 list \<Rightarrow> string list \<Rightarrow> u64 list" where
  "tokens_hashes_loop Sum64 dst [] = dst"
| "tokens_hashes_loop Sum64 dst (token # tokens) =
     tokens_hashes_loop Sum64
       (token_hashes Sum64 bloomFilterHashesCount (Sum64 (ToUnsafeBytes token)) dst) tokens"

definition appendTokensHashes ::
  "(byte list \<Rightarrow> u64) \<Rightarrow> (u64 list \<Rightarrow> nat \<Rightarrow> u64 list) \<Rightarrow> u64 list \<Rightarrow> string list \<Rightarrow> u64 list" where
  "appendTokensHashes Sum64 SetLength dst tokens =
     (let dstLen = length dst;
          hashesCount = length tokens * bloomFilterHashesCount;
          dst1 = SetLength dst (dstLen + hashesCount);
          dst2 = take dstLen dst1
      in tokens_hashes_loop Sum64 dst2 tokens)"

text \<open>\<open>bloomFilterAddTokens\<close>: \<open>a.A\<close> is a pooled scratch slice, emptied by \<open>a.A[:0]\<close>.\<close>

definition bloomFilterAddTokens ::
  "(byte list \<Rightarrow> u64) \<Rightarrow> (u64 list \<Rightarrow> nat \<Rightarrow> u64 list) \<Rightarrow> u64 list \<Rightarrow> string list \<Rightarrow> u64 list option" where
  "bloomFilterAddTokens Sum64 SetLength bs tokens =
     initBloomFilter bs (appendTokensHashes Sum64 SetLength [] tokens)"

definition mustInitTokens ::
  "(byte list \<Rightarrow> u64) \<Rightarrow> (u64 list \<Rightarrow> nat \<Rightarrow> u64 list) \<Rightarrow> bloomFilter \<Rightarrow> string list \<Rightarrow> bloomFilter option" where
  "mustInitTokens Sum64 SetLength bf tokens =
     (let bitsCount = length tokens * bloomFilterBitsPerItem;
          wordsCount = (bitsCount + 63) div 64;
          bs = SetLength (bits bf) wordsCount
      in case bloomFilterAddTokens Sum64 SetLength bs tokens of
           None \<Rightarrow> None
         | Some bs' \<Rightarrow> Some (bf\<lparr>bits := bs'\<rparr>))"

text \<open>\<open>containsAll\<close>: an empty bit array contains everything.\<close>

fun containsAll_loop :: "u64 list \<Rightarrow> u64 list \<Rightarrow> bool option" where
  "containsAll_loop bs [] = Some True"
| "containsAll_loop bs (h # hs) =
     (let maxBits = length bs * 64 in
      if maxBits = 0 then None
      else
        let idx = unat h mod maxBits;
            i = idx div 64;
            j = idx mod 64;
            mask = (push_bit j 1 :: u64)
        in if i < length bs
           then let w = bs ! i
                in if w AND mask = 0 then Some False else containsAll_loop bs hs
           else None)"

definition containsAll :: "bloomFilter \<Rightarrow> u64 list \<Rightarrow> bool option" where
  "containsAll bf hashes =
     (let bs = bits bf in
      if length bs = 0 then Some True else containsAll_loop bs hashes)"

text \<open>A \<open>SetLength\<close> as Go's slices give it when the slice has no spare capacity.\<close>

definition SetLength_fresh :: "u64 list \<Rightarrow> nat \<Rightarrow> u64 list" where
  "SetLength_fresh a newLen = take newLen a @ replicate (newLen - length a) 0"

text \<open>Bit \<open>h % maxBits\<close> of the bit array, as both loops address it.\<close>

definition probe :: "u64 list \<Rightarrow> u64 \<Rightarrow> bool" where
  "probe bs h = (let idx = unat h mod (length bs * 64) in bit (bs ! (idx div 64)) (idx mod 64))"


text \<open>The little-endian value of a byte sequence.\<close>

definition le_decode :: "byte list \<Rightarrow> u64" where
  "le_decode bs = foldr (\<lambda>b acc. ucast b OR push_bit 8 acc) bs 0"


section \<open>Primitive matchers (package logstorage, filters)\<close>

text \<open>
  A rune is a Unicode code point (\<open>nat\<close>). Functions that can panic (a slice or an index
  out of range, \<open>logger.Panicf\<close>) return an \<open>option\<close>, \<open>None\<close> for the panic.
\<close>

type_synonym u32 = "32 word"
type_synonym u16 = "16 word"
type_synonym rune = nat

definition RuneSelf :: rune where
  "RuneSelf = 128"

definition RuneError :: rune where
  "RuneError = 65533"

text \<open>
  The functions the filters call that are not among the sources, as one record of
  parameters: Go's \<open>utf8\<close>, \<open>unicode\<close>, \<open>strings\<close>, \<open>strconv\<close> and \<open>math\<close> packages,
  the tokenizer, the value parsers and renderers of the values encoder, \<open>lib/encoding\<close>
  and \<open>lib/stringsutil\<close>. \<open>'f\<close> is float64 with its comparisons and conversions.
  The renderers and \<open>AppendUint\<close> (base 10) are called with an empty destination buffer and
  give the rendered string. \<open>containsAllTokens\<close> is \<open>bloomFilter.containsAll\<close> as the
  filters call it, on the tokens themselves: the sources' \<open>containsAll\<close> takes the hashes
  that \<open>appendTokensHashes\<close> derives from the tokens.
\<close>

record 'f ext =
  DecodeRuneInString :: "string \<Rightarrow> rune \<times> nat"
  DecodeLastRuneInString :: "string \<Rightarrow> rune \<times> nat"
  RuneCountInString :: "string \<Rightarrow> nat"
  IsLetter :: "rune \<Rightarrow> bool"
  IsDigit :: "rune \<Rightarrow> bool"
  ToLower :: "string \<Rightarrow> string"
  ToUpper :: "string \<Rightarrow> string"
  AppendLowercase :: "string \<Rightarrow> string"
  AppendUint :: "u64 \<Rightarrow> string"
  tokenizeStrings :: "string list \<Rightarrow> string list"
  containsAllTokens :: "bloomFilter \<Rightarrow> string list \<Rightarrow> bool"
  tryParseUint64 :: "string \<Rightarrow> u64 option"
  tryParseIPv4 :: "string \<Rightarrow> u32 option"
  tryParseFloat64 :: "string \<Rightarrow> 'f option"
  tryParseTimestampISO8601 :: "string \<Rightarrow> u64 option"
  toFloat64String :: "string \<Rightarrow> string"
  toIPv4String :: "string \<Rightarrow> string"
  toTimestampISO8601String :: "string \<Rightarrow> string"
  iso8601Timestamp :: string
  MarshalUint16 :: "u16 \<Rightarrow> string"
  MarshalUint32 :: "u32 \<Rightarrow> string"
  UnmarshalUint16 :: "string \<Rightarrow> u16"
  UnmarshalUint32 :: "string \<Rightarrow> u32"
  f64_less :: "'f \<Rightarrow> 'f \<Rightarrow> bool"
  f64_less_eq :: "'f \<Rightarrow> 'f \<Rightarrow> bool"
  f64_zero :: 'f
  f64_MaxUint64 :: 'f
  f64_to_uint64 :: "'f \<Rightarrow> u64"
  Float64frombits :: "u64 \<Rightarrow> 'f"
  Float64bits :: "'f \<Rightarrow> u64"
  Ceil :: "'f \<Rightarrow> 'f"
  Floor :: "'f \<Rightarrow> 'f"

text \<open>
  Modelled from the spec: \<open>isTokenRune\<close> (the tokenizer) is not among the sources. The
  spec: a "token" character is "alphanumeric/underscore". ASCII runes are classified here;
  for the others the Unicode tables \<open>IsLetter\<close> and \<open>IsDigit\<close> are parameters.
\<close>

definition isTokenRune :: "'f ext \<Rightarrow> rune \<Rightarrow> bool" where
  "isTokenRune E r =
     (if r < RuneSelf
      then (48 \<le> r \<and> r \<le> 57) \<or> (65 \<le> r \<and> r \<le> 90) \<or> (97 \<le> r \<and> r \<le> 122) \<or> r = 95
      else IsLetter E r \<or> IsDigit E r)"

text \<open>\<open>strings.Index\<close>: the index of the first instance of \<open>substr\<close> in \<open>s\<close>, or -1.\<close>

fun Index :: "string \<Rightarrow> string \<Rightarrow> int" where
  "Index [] substr = (if substr = [] then 0 else - 1)"
| "Index (c # s) substr =
     (if prefix substr (c # s) then 0
      else let n = Index s substr in if n < 0 then - 1 else n + 1)"

text \<open>
  \<open>r := rune(s[i]); if r >= utf8.RuneSelf { r, _ = utf8.DecodeRuneInString(s[i:]) }\<close> and
  \<open>r := rune(s[i-1]); if r >= utf8.RuneSelf { r, _ = utf8.DecodeLastRuneInString(s[:i]) }\<close>,
  followed by the test \<open>r == utf8.RuneError || isTokenRune(r)\<close>.
\<close>

definition runeAt :: "'f ext \<Rightarrow> string \<Rightarrow> nat \<Rightarrow> rune option" where
  "runeAt E s i =
     (if i < length s
      then let r = of_char (s ! i)
           in Some (if r \<ge> RuneSelf then fst (DecodeRuneInString E (drop i s)) else r)
      else None)"

definition runeBefore :: "'f ext \<Rightarrow> string \<Rightarrow> nat \<Rightarrow> rune option" where
  "runeBefore E s i =
     (if 0 < i \<and> i \<le> length s
      then let r = of_char (s ! (i - 1))
           in Some (if r \<ge> RuneSelf then fst (DecodeLastRuneInString E (take i s)) else r)
      else None)"

definition insideToken :: "'f ext \<Rightarrow> rune option \<Rightarrow> bool option" where
  "insideToken E ro = map_option (\<lambda>r. r = RuneError \<or> isTokenRune E r) ro"

text \<open>
  \<open>matchPrefix\<close>. The \<open>for\<close> loop is \<open>matchPrefix_loop\<close> on \<open>offset\<close>; \<open>s[offset:]\<close>
  panics when \<open>offset\<close> exceeds \<open>len(s)\<close>.
\<close>

function matchPrefix_loop :: "'f ext \<Rightarrow> string \<Rightarrow> string \<Rightarrow> bool \<Rightarrow> nat \<Rightarrow> bool option" where
  "matchPrefix_loop E s pfx startsWithToken offset =
     (if length s < offset then None
      else
        let n = Index (drop offset s) pfx in
        if n < 0 then Some False
        else
          let offset1 = offset + nat n in
          case (if startsWithToken \<and> 0 < offset1
                then insideToken E (runeBefore E s offset1) else Some False) of
            None \<Rightarrow> None
          | Some True \<Rightarrow> matchPrefix_loop E s pfx startsWithToken (offset1 + 1)
          | Some False \<Rightarrow> Some True)"
  by pat_completeness auto
termination
  by (relation "measure (\<lambda>(E, s, pfx, startsWithToken, offset). length s + 1 - offset)") auto

declare matchPrefix_loop.simps [simp del]

definition matchPrefix :: "'f ext \<Rightarrow> string \<Rightarrow> string \<Rightarrow> bool option" where
  "matchPrefix E s pfx =
     (if length pfx = 0 then Some (length s > 0)
      else if length pfx > length s then Some False
      else case runeAt E pfx 0 of
             None \<Rightarrow> None
           | Some r \<Rightarrow> matchPrefix_loop E s pfx (isTokenRune E r) 0)"

text \<open>\<open>getPhrasePos\<close> and \<open>matchPhrase\<close>. The \<open>for\<close> loop is \<open>getPhrasePos_loop\<close> on \<open>pos\<close>.\<close>

function getPhrasePos_loop ::
  "'f ext \<Rightarrow> string \<Rightarrow> string \<Rightarrow> bool \<Rightarrow> bool \<Rightarrow> nat \<Rightarrow> int option" where
  "getPhrasePos_loop E s phrase startsWithToken endsWithToken pos =
     (if length s < pos then None
      else
        let n = Index (drop pos s) phrase in
        if n < 0 then Some (- 1)
        else
          let pos1 = pos + nat n in
          case (if startsWithToken \<and> 0 < pos1
                then insideToken E (runeBefore E s pos1) else Some False) of
            None \<Rightarrow> None
          | Some True \<Rightarrow> getPhrasePos_loop E s phrase startsWithToken endsWithToken (pos1 + 1)
          | Some False \<Rightarrow>
              (case (if endsWithToken \<and> pos1 + length phrase < length s
                     then insideToken E (runeAt E s (pos1 + length phrase)) else Some False) of
                 None \<Rightarrow> None
               | Some True \<Rightarrow> getPhrasePos_loop E s phrase startsWithToken endsWithToken (pos1 + 1)
               | Some False \<Rightarrow> Some (int pos1)))"
  by pat_completeness auto
termination
  by (relation "measure (\<lambda>(E, s, phrase, startsWithToken, endsWithToken, pos). length s + 1 - pos)") auto

declare getPhrasePos_loop.simps [simp del]

definition getPhrasePos :: "'f ext \<Rightarrow> string \<Rightarrow> string \<Rightarrow> int option" where
  "getPhrasePos E s phrase =
     (if length phrase = 0 then Some 0
      else if length phrase > length s then Some (- 1)
      else case runeAt E phrase 0 of
             None \<Rightarrow> None
           | Some r0 \<Rightarrow>
               (case runeBefore E phrase (length phrase) of
                  None \<Rightarrow> None
                | Some r1 \<Rightarrow> getPhrasePos_loop E s phrase (isTokenRune E r0) (isTokenRune E r1) 0))"

definition matchPhrase :: "'f ext \<Rightarrow> string \<Rightarrow> string \<Rightarrow> bool option" where
  "matchPhrase E s phrase =
     (if length phrase = 0 then Some (length s = 0)
      else map_option (\<lambda>n. n \<ge> 0) (getPhrasePos E s phrase))"

text \<open>
  Go compares strings byte by byte: \<open>cmpstring\<close> is negative, zero or positive as \<open>a\<close> is
  less than, equal to or greater than \<open>b\<close>. \<open>s >= minValue && s < maxValue\<close>:
\<close>

fun cmpstring :: "string \<Rightarrow> string \<Rightarrow> int" where
  "cmpstring [] [] = 0"
| "cmpstring [] (y # ys) = - 1"
| "cmpstring (x # xs) [] = 1"
| "cmpstring (x # xs) (y # ys) =
     (if (of_char x :: nat) < of_char y then - 1
      else if (of_char y :: nat) < of_char x then 1
      else cmpstring xs ys)"

definition matchStringRange :: "string \<Rightarrow> string \<Rightarrow> string \<Rightarrow> bool" where
  "matchStringRange s minValue maxValue = (cmpstring s minValue \<ge> 0 \<and> cmpstring s maxValue < 0)"

text \<open>
  The matches of a phrase, stated on positions: the phrase occurs at \<open>p\<close>; if it starts
  with a token rune, \<open>p\<close> is 0 or the rune before \<open>p\<close> is neither a token rune nor
  \<open>RuneError\<close>; if it ends with a token rune, the occurrence ends \<open>s\<close> or the rune after
  it is neither a token rune nor \<open>RuneError\<close>.
\<close>

definition occurs_at :: "string \<Rightarrow> string \<Rightarrow> nat \<Rightarrow> bool" where
  "occurs_at s substr p = (p \<le> length s \<and> prefix substr (drop p s))"

definition startsWithToken :: "'f ext \<Rightarrow> string \<Rightarrow> bool" where
  "startsWithToken E phrase = (case runeAt E phrase 0 of None \<Rightarrow> False | Some r \<Rightarrow> isTokenRune E r)"

definition endsWithToken :: "'f ext \<Rightarrow> string \<Rightarrow> bool" where
  "endsWithToken E phrase =
     (case runeBefore E phrase (length phrase) of None \<Rightarrow> False | Some r \<Rightarrow> isTokenRune E r)"

definition tokenCharBefore :: "'f ext \<Rightarrow> string \<Rightarrow> nat \<Rightarrow> bool" where
  "tokenCharBefore E s p = (insideToken E (runeBefore E s p) = Some True)"

definition tokenCharAt :: "'f ext \<Rightarrow> string \<Rightarrow> nat \<Rightarrow> bool" where
  "tokenCharAt E s p = (insideToken E (runeAt E s p) = Some True)"

definition phraseAt :: "'f ext \<Rightarrow> string \<Rightarrow> string \<Rightarrow> bool \<Rightarrow> bool \<Rightarrow> nat \<Rightarrow> bool" where
  "phraseAt E s phrase st en p =
     (occurs_at s phrase p \<and>
      \<not> (st \<and> 0 < p \<and> tokenCharBefore E s p) \<and>
      \<not> (en \<and> p + length phrase < length s \<and> tokenCharAt E s (p + length phrase)))"

text \<open>
  A concrete instance of the collaborators: ASCII-only text, decimal numbers, integers
  in place of float64. It instantiates the theorems below at concrete inputs.
\<close>

definition asciiLower :: "char \<Rightarrow> char" where
  "asciiLower c = (if 65 \<le> (of_char c :: nat) \<and> (of_char c :: nat) \<le> 90 then char_of (of_char c + 32 :: nat) else c)"

definition asciiUpper :: "char \<Rightarrow> char" where
  "asciiUpper c = (if 97 \<le> (of_char c :: nat) \<and> (of_char c :: nat) \<le> 122 then char_of (of_char c - 32 :: nat) else c)"

fun decimalDigits :: "nat \<Rightarrow> string" where
  "decimalDigits n = (if n < 10 then [char_of (48 + n)] else decimalDigits (n div 10) @ [char_of (48 + n mod 10)])"

declare decimalDigits.simps [simp del]

fun parseDigits :: "nat \<Rightarrow> string \<Rightarrow> nat option" where
  "parseDigits acc [] = Some acc"
| "parseDigits acc (c # cs) =
     (if 48 \<le> (of_char c :: nat) \<and> (of_char c :: nat) \<le> 57
      then parseDigits (10 * acc + (of_char c - 48)) cs else None)"

definition asciiExt :: "int ext" where
  "asciiExt = \<lparr>
     DecodeRuneInString = (\<lambda>s. case s of [] \<Rightarrow> (RuneError, 0)
        | c # _ \<Rightarrow> (if (of_char c :: nat) < 128 then of_char c else RuneError, 1)),
     DecodeLastRuneInString = (\<lambda>s. if s = [] then (RuneError, 0)
        else (if (of_char (last s) :: nat) < 128 then of_char (last s) else RuneError, 1)),
     RuneCountInString = length,
     IsLetter = (\<lambda>r. False),
     IsDigit = (\<lambda>r. False),
     ToLower = map asciiLower,
     ToUpper = map asciiUpper,
     AppendLowercase = map asciiLower,
     AppendUint = (\<lambda>n. decimalDigits (unat n)),
     tokenizeStrings = filter (\<lambda>s. s \<noteq> []),
     containsAllTokens = (\<lambda>bf tokens.
        containsAll bf (appendTokensHashes (\<lambda>b. foldr (\<lambda>x acc. ucast x + 31 * acc) b 7)
          SetLength_fresh [] tokens) = Some True),
     tryParseUint64 = (\<lambda>s. if s = [] \<or> 18 < length s then None else map_option of_nat (parseDigits 0 s)),
     tryParseIPv4 = (\<lambda>s. None),
     tryParseFloat64 = (\<lambda>s. map_option int (parseDigits 0 s)),
     tryParseTimestampISO8601 = (\<lambda>s. None),
     toFloat64String = (\<lambda>v. v),
     toIPv4String = (\<lambda>v. v),
     toTimestampISO8601String = (\<lambda>v. v),
     iso8601Timestamp = ''2006-01-02T15:04:05.000Z'',
     MarshalUint16 = (\<lambda>n. [char_of (unat n mod 256), char_of (unat n div 256)]),
     MarshalUint32 = (\<lambda>n. map (\<lambda>k. char_of (unat (drop_bit (8 * k) n))) [0..<4]),
     UnmarshalUint16 = (\<lambda>v. foldr (\<lambda>c acc. of_char c + 256 * acc) (take 2 v) 0),
     UnmarshalUint32 = (\<lambda>v. foldr (\<lambda>c acc. of_char c + 256 * acc) (take 4 v) 0),
     f64_less = (<),
     f64_less_eq = (\<le>),
     f64_zero = 0,
     f64_MaxUint64 = 18446744073709551615,
     f64_to_uint64 = of_int,
     Float64frombits = uint,
     Float64bits = of_int,
     Ceil = (\<lambda>f. f),
     Floor = (\<lambda>f. f) \<rparr>"

section \<open>Blocks, bitmaps and filters (package logstorage, filters)\<close>

text \<open>
  The stored value types. \<open>valueType\<close> is a byte tag whose declaration is not among the
  sources; the nine stored types are the cases of every \<open>switch ch.valueType\<close>, and
  \<open>valueTypeUnknown\<close> stands for any other tag, which takes the \<open>default\<close> branch.
\<close>

datatype valueType =
    valueTypeUnknown
  | valueTypeString
  | valueTypeDict
  | valueTypeUint8
  | valueTypeUint16
  | valueTypeUint32
  | valueTypeUint64
  | valueTypeFloat64
  | valueTypeIPv4
  | valueTypeTimestampISO8601

text \<open>
  \<open>columnHeader\<close>, with the fields the filters read: \<open>ch.valueType\<close>, \<open>ch.minValue\<close>,
  \<open>ch.maxValue\<close> and \<open>ch.valuesDict.values\<close>.
\<close>

record columnHeader =
  ch_valueType :: valueType
  ch_minValue :: u64
  ch_maxValue :: u64
  ch_valuesDict :: "string list"

text \<open>
  Modelled from the spec: \<open>blockSearch\<close> is not among the sources. The spec: the block
  search context exposes "column-header lookup by field name (nullable), constant-value
  lookup by field name (empty string if not constant), ordered per-row raw value access for
  a column, bloom-filter access for a column"; \<open>rowsCount\<close> and \<open>streamID\<close> are the fields
  \<open>bs.bsw.bh.rowsCount\<close> and \<open>bs.bsw.bh.streamID\<close> of the block header.
\<close>

record 'sid blockSearch =
  getConstColumnValue :: "string \<Rightarrow> string"
  getColumnHeader :: "string \<Rightarrow> columnHeader option"
  getValuesForColumn :: "columnHeader \<Rightarrow> string list"
  getBloomFilterForColumn :: "columnHeader \<Rightarrow> bloomFilter"
  rowsCount :: u64
  streamID :: 'sid

text \<open>
  Modelled from the spec: \<open>bitmap\<close> is not among the sources. The spec: "per-row boolean
  vector for one block; supports clear-all and 'for each still-set row' iteration";
  \<open>apply\<close> "clears bits for non-matching rows". \<open>forEachSetBit\<close> calls \<open>f\<close> on the index of
  every set bit, in order, and clears the bit when \<open>f\<close> returns false; a panic in \<open>f\<close> ends
  the iteration.
\<close>

type_synonym bitmap = "bool list"

definition resetBits :: "bitmap \<Rightarrow> bitmap" where
  "resetBits bm = replicate (length bm) False"

definition isZero :: "bitmap \<Rightarrow> bool" where
  "isZero bm = list_all Not bm"

fun forEachSetBit_from :: "(nat \<Rightarrow> bool option) \<Rightarrow> nat \<Rightarrow> bitmap \<Rightarrow> bitmap option" where
  "forEachSetBit_from f idx [] = Some []"
| "forEachSetBit_from f idx (b # bm) =
     (if b
      then case f idx of
             None \<Rightarrow> None
           | Some keep \<Rightarrow> map_option ((#) keep) (forEachSetBit_from f (Suc idx) bm)
      else map_option ((#) False) (forEachSetBit_from f (Suc idx) bm))"

definition forEachSetBit :: "(nat \<Rightarrow> bool option) \<Rightarrow> bitmap \<Rightarrow> bitmap option" where
  "forEachSetBit f bm = forEachSetBit_from f 0 bm"

text \<open>\<open>visitValues\<close>; \<open>values[idx]\<close> panics when \<open>idx\<close> is out of range.\<close>

definition visitValues ::
  "'sid blockSearch \<Rightarrow> columnHeader \<Rightarrow> bitmap \<Rightarrow> (string \<Rightarrow> bool option) \<Rightarrow> bitmap option" where
  "visitValues bs ch bm f =
     (if isZero bm then Some bm
      else
        let values = getValuesForColumn bs ch
        in forEachSetBit (\<lambda>idx. if idx < length values then f (values ! idx) else None) bm)"

text \<open>\<open>bytesutil.ToUnsafeString\<close>: the string of a byte slice, unchanged.\<close>

definition ToUnsafeString :: "byte list \<Rightarrow> string" where
  "ToUnsafeString b = map (\<lambda>x. char_of (unat x)) b"

text \<open>Bloom filter gates. \<open>maxTokenSetsToInit\<close> is 1000.\<close>

definition maxTokenSetsToInit :: nat where
  "maxTokenSetsToInit = 1000"

definition matchBloomFilterAnyTokenSet ::
  "'f ext \<Rightarrow> 'sid blockSearch \<Rightarrow> columnHeader \<Rightarrow> string list list \<Rightarrow> bool" where
  "matchBloomFilterAnyTokenSet E bs ch tokenSets =
     (if length tokenSets = 0 then False
      else if length tokenSets > maxTokenSetsToInit \<or>
              (of_nat (length tokenSets) :: u64) > 10 * rowsCount bs then True
      else
        let bf = getBloomFilterForColumn bs ch
        in list_ex (\<lambda>tokens. containsAllTokens E bf tokens) tokenSets)"

definition matchBloomFilterAllTokens ::
  "'f ext \<Rightarrow> 'sid blockSearch \<Rightarrow> columnHeader \<Rightarrow> string list \<Rightarrow> bool" where
  "matchBloomFilterAllTokens E bs ch tokens =
     (if length tokens = 0 then True
      else
        let bf = getBloomFilterForColumn bs ch
        in containsAllTokens E bf tokens)"

text \<open>The remaining primitive matchers.\<close>

fun isASCIILowercase :: "string \<Rightarrow> bool" where
  "isASCIILowercase [] = True"
| "isASCIILowercase (c # s) =
     (if (of_char c :: nat) \<ge> RuneSelf \<or> ((of_char c :: nat) \<ge> 65 \<and> (of_char c :: nat) \<le> 90)
      then False else isASCIILowercase s)"

definition matchAnyCasePrefix :: "'f ext \<Rightarrow> string \<Rightarrow> string \<Rightarrow> bool option" where
  "matchAnyCasePrefix E s prefixLowercase =
     (if length prefixLowercase = 0 then Some (length s > 0)
      else if length prefixLowercase > length s then Some False
      else if isASCIILowercase s then matchPrefix E s prefixLowercase
      else
        let sLowercase = AppendLowercase E s
        in matchPrefix E sLowercase prefixLowercase)"

definition matchAnyCasePhrase :: "'f ext \<Rightarrow> string \<Rightarrow> string \<Rightarrow> bool option" where
  "matchAnyCasePhrase E s phraseLowercase =
     (if length phraseLowercase = 0 then Some (length s = 0)
      else if length phraseLowercase > length s then Some False
      else if isASCIILowercase s then matchPhrase E s phraseLowercase
      else
        let sLowercase = AppendLowercase E s
        in matchPhrase E sLowercase phraseLowercase)"

definition matchIPv4Range :: "'f ext \<Rightarrow> string \<Rightarrow> u32 \<Rightarrow> u32 \<Rightarrow> bool" where
  "matchIPv4Range E s minValue maxValue =
     (case tryParseIPv4 E s of
        None \<Rightarrow> False
      | Some n \<Rightarrow> n \<ge> minValue \<and> n \<le> maxValue)"

definition matchLenRange :: "'f ext \<Rightarrow> string \<Rightarrow> u64 \<Rightarrow> u64 \<Rightarrow> bool" where
  "matchLenRange E s minLen maxLen =
     (let sLen = (of_nat (RuneCountInString E s) :: u64)
      in sLen \<ge> minLen \<and> sLen \<le> maxLen)"

definition matchRange :: "'f ext \<Rightarrow> string \<Rightarrow> 'f \<Rightarrow> 'f \<Rightarrow> bool" where
  "matchRange E s minValue maxValue =
     (case tryParseFloat64 E s of
        None \<Rightarrow> False
      | Some f \<Rightarrow> f64_less_eq E minValue f \<and> f64_less_eq E f maxValue)"

definition toUint64Clamp :: "'f ext \<Rightarrow> 'f \<Rightarrow> u64" where
  "toUint64Clamp E f =
     (if f64_less E f (f64_zero E) then 0
      else if f64_less E (f64_MaxUint64 E) f then - 1
      else f64_to_uint64 E f)"

definition toUint64Range :: "'f ext \<Rightarrow> 'f \<Rightarrow> 'f \<Rightarrow> u64 \<times> u64" where
  "toUint64Range E minValue maxValue =
     (let minValue1 = Ceil E minValue;
          maxValue1 = Floor E maxValue
      in (toUint64Clamp E minValue1, toUint64Clamp E maxValue1))"

text \<open>
  Canonical string rendering of binary values; a binary value whose length is not its
  type's width is a fatal error (\<open>logger.Panicf\<close>).
\<close>

definition toUint8String :: "'f ext \<Rightarrow> string \<Rightarrow> string option" where
  "toUint8String E v =
     (if length v \<noteq> 1 then None
      else let n = (of_char (v ! 0) :: u64) in Some (AppendUint E n))"

definition toUint16String :: "'f ext \<Rightarrow> string \<Rightarrow> string option" where
  "toUint16String E v =
     (if length v \<noteq> 2 then None
      else let n = (ucast (UnmarshalUint16 E v) :: u64) in Some (AppendUint E n))"

definition toUint32String :: "'f ext \<Rightarrow> string \<Rightarrow> string option" where
  "toUint32String E v =
     (if length v \<noteq> 4 then None
      else let n = (ucast (UnmarshalUint32 E v) :: u64) in Some (AppendUint E n))"

definition toUint64String :: "'f ext \<Rightarrow> string \<Rightarrow> string option" where
  "toUint64String E v =
     (if length v \<noteq> 8 then None
      else case UnmarshalUint64 (ToUnsafeBytes v) of
             None \<Rightarrow> None
           | Some n \<Rightarrow> Some (AppendUint E n))"

definition toFloat64StringExt :: "'f ext \<Rightarrow> string \<Rightarrow> string option" where
  "toFloat64StringExt E v = (if length v \<noteq> 8 then None else Some (toFloat64String E v))"

definition toIPv4StringExt :: "'f ext \<Rightarrow> string \<Rightarrow> string option" where
  "toIPv4StringExt E v = (if length v \<noteq> 4 then None else Some (toIPv4String E v))"

definition toTimestampISO8601StringExt :: "'f ext \<Rightarrow> string \<Rightarrow> string option" where
  "toTimestampISO8601StringExt E v =
     (if length v \<noteq> 8 then None else Some (toTimestampISO8601String E v))"

text \<open>
  \<open>getTokensSkipLast\<close>: the loop drops trailing token runes. With the decoder a parameter
  the loop need not end, so it is a partial function: \<open>None\<close> when it does not return
  (or \<open>s[:len(s)-runeSize]\<close> panics).
\<close>

partial_function (option) getTokensSkipLast_loop :: "'f ext \<Rightarrow> string \<Rightarrow> string option" where
  "getTokensSkipLast_loop E s =
     (case DecodeLastRuneInString E s of
        (r, runeSize) \<Rightarrow>
          if \<not> isTokenRune E r then Some s
          else if runeSize > length s then None
          else getTokensSkipLast_loop E (take (length s - runeSize) s))"

declare getTokensSkipLast_loop.simps [code]

definition getTokensSkipLast :: "'f ext \<Rightarrow> string \<Rightarrow> string list option" where
  "getTokensSkipLast E s =
     (case getTokensSkipLast_loop E s of
        None \<Rightarrow> None
      | Some s1 \<Rightarrow> Some (tokenizeStrings E [s1]))"

text \<open>Matchers for binary values and value sets.\<close>

definition matchBinaryValue ::
  "'f ext \<Rightarrow> 'sid blockSearch \<Rightarrow> columnHeader \<Rightarrow> bitmap \<Rightarrow> string \<Rightarrow> string list \<Rightarrow> bitmap option" where
  "matchBinaryValue E bs ch bm binValue tokens =
     (if \<not> matchBloomFilterAllTokens E bs ch tokens then Some (resetBits bm)
      else visitValues bs ch bm (\<lambda>v. Some (v = binValue)))"

definition matchAnyValue ::
  "'f ext \<Rightarrow> 'sid blockSearch \<Rightarrow> columnHeader \<Rightarrow> bitmap \<Rightarrow> string set \<Rightarrow> string list list \<Rightarrow> bitmap option" where
  "matchAnyValue E bs ch bm values tokenSets =
     (if \<not> matchBloomFilterAnyTokenSet E bs ch tokenSets then Some (resetBits bm)
      else visitValues bs ch bm (\<lambda>v. Some (v \<in> values)))"

text \<open>
  Dictionary columns. Every \<open>matchValuesDictBy...\<close> collects in \<open>bb.B\<close> the indexes
  \<open>byte(i)\<close> of the dictionary values that match (\<open>encodeDictMatches\<close>), then scans the
  one-byte-per-row index array with \<open>matchEncodedValuesDict\<close>.
\<close>

fun encodeDictMatches :: "(string \<Rightarrow> bool option) \<Rightarrow> nat \<Rightarrow> string list \<Rightarrow> string option" where
  "encodeDictMatches f i [] = Some []"
| "encodeDictMatches f i (v # vs) =
     (case f v of
        None \<Rightarrow> None
      | Some b \<Rightarrow>
          map_option (\<lambda>rest. if b then char_of i # rest else rest) (encodeDictMatches f (Suc i) vs))"

definition matchEncodedValuesDict ::
  "'sid blockSearch \<Rightarrow> columnHeader \<Rightarrow> bitmap \<Rightarrow> string \<Rightarrow> bitmap option" where
  "matchEncodedValuesDict bs ch bm encodedValues =
     (if length encodedValues = 0 then Some (resetBits bm)
      else visitValues bs ch bm
             (\<lambda>v. if length v \<noteq> 1 then None else Some (v ! 0 \<in> set encodedValues)))"

definition matchValuesDictByIPv4Range ::
  "'f ext \<Rightarrow> 'sid blockSearch \<Rightarrow> columnHeader \<Rightarrow> bitmap \<Rightarrow> u32 \<Rightarrow> u32 \<Rightarrow> bitmap option" where
  "matchValuesDictByIPv4Range E bs ch bm minValue maxValue =
     (case encodeDictMatches (\<lambda>v. Some (matchIPv4Range E v minValue maxValue)) 0 (ch_valuesDict ch) of
        None \<Rightarrow> None
      | Some encodedValues \<Rightarrow> matchEncodedValuesDict bs ch bm encodedValues)"

definition matchValuesDictByStringRange ::
  "'f ext \<Rightarrow> 'sid blockSearch \<Rightarrow> columnHeader \<Rightarrow> bitmap \<Rightarrow> string \<Rightarrow> string \<Rightarrow> bitmap option" where
  "matchValuesDictByStringRange E bs ch bm minValue maxValue =
     (case encodeDictMatches (\<lambda>v. Some (matchStringRange v minValue maxValue)) 0 (ch_valuesDict ch) of
        None \<Rightarrow> None
      | Some encodedValues \<Rightarrow> matchEncodedValuesDict bs ch bm encodedValues)"

definition matchValuesDictByLenRange ::
  "'f ext \<Rightarrow> 'sid blockSearch \<Rightarrow> columnHeader \<Rightarrow> bitmap \<Rightarrow> u64 \<Rightarrow> u64 \<Rightarrow> bitmap option" where
  "matchValuesDictByLenRange E bs ch bm minLen maxLen =
     (case encodeDictMatches (\<lambda>v. Some (matchLenRange E v minLen maxLen)) 0 (ch_valuesDict ch) of
        None \<Rightarrow> None
      | Some encodedValues \<Rightarrow> matchEncodedValuesDict bs ch bm encodedValues)"

definition matchValuesDictByRange ::
  "'f ext \<Rightarrow> 'sid blockSearch \<Rightarrow> columnHeader \<Rightarrow> bitmap \<Rightarrow> 'f \<Rightarrow> 'f \<Rightarrow> bitmap option" where
  "matchValuesDictByRange E bs ch bm minValue maxValue =
     (case encodeDictMatches (\<lambda>v. Some (matchRange E v minValue maxValue)) 0 (ch_valuesDict ch) of
        None \<Rightarrow> None
      | Some encodedValues \<Rightarrow> matchEncodedValuesDict bs ch bm encodedValues)"

definition matchValuesDictByRegexp ::
  "'f ext \<Rightarrow> 'sid blockSearch \<Rightarrow> columnHeader \<Rightarrow> bitmap \<Rightarrow> (string \<Rightarrow> bool) \<Rightarrow> bitmap option" where
  "matchValuesDictByRegexp E bs ch bm re =
     (case encodeDictMatches (\<lambda>v. Some (re v)) 0 (ch_valuesDict ch) of
        None \<Rightarrow> None
      | Some encodedValues \<Rightarrow> matchEncodedValuesDict bs ch bm encodedValues)"

definition matchValuesDictByAnyCasePrefix ::
  "'f ext \<Rightarrow> 'sid blockSearch \<Rightarrow> columnHeader \<Rightarrow> bitmap \<Rightarrow> string \<Rightarrow> bitmap option" where
  "matchValuesDictByAnyCasePrefix E bs ch bm prefixLowercase =
     (case encodeDictMatches (\<lambda>v. matchAnyCasePrefix E v prefixLowercase) 0 (ch_valuesDict ch) of
        None \<Rightarrow> None
      | Some encodedValues \<Rightarrow> matchEncodedValuesDict bs ch bm encodedValues)"

definition matchValuesDictByAnyCasePhrase ::
  "'f ext \<Rightarrow> 'sid blockSearch \<Rightarrow> columnHeader \<Rightarrow> bitmap \<Rightarrow> string \<Rightarrow> bitmap option" where
  "matchValuesDictByAnyCasePhrase E bs ch bm phraseLowercase =
     (case encodeDictMatches (\<lambda>v. matchAnyCasePhrase E v phraseLowercase) 0 (ch_valuesDict ch) of
        None \<Rightarrow> None
      | Some encodedValues \<Rightarrow> matchEncodedValuesDict bs ch bm encodedValues)"

definition matchValuesDictByPrefix ::
  "'f ext \<Rightarrow> 'sid blockSearch \<Rightarrow> columnHeader \<Rightarrow> bitmap \<Rightarrow> string \<Rightarrow> bitmap option" where
  "matchValuesDictByPrefix E bs ch bm pfx =
     (case encodeDictMatches (\<lambda>v. matchPrefix E v pfx) 0 (ch_valuesDict ch) of
        None \<Rightarrow> None
      | Some encodedValues \<Rightarrow> matchEncodedValuesDict bs ch bm encodedValues)"

definition matchValuesDictByExactValue ::
  "'f ext \<Rightarrow> 'sid blockSearch \<Rightarrow> columnHeader \<Rightarrow> bitmap \<Rightarrow> string \<Rightarrow> bitmap option" where
  "matchValuesDictByExactValue E bs ch bm val =
     (case encodeDictMatches (\<lambda>v. Some (v = val)) 0 (ch_valuesDict ch) of
        None \<Rightarrow> None
      | Some encodedValues \<Rightarrow> matchEncodedValuesDict bs ch bm encodedValues)"

definition matchValuesDictByAnyValue ::
  "'f ext \<Rightarrow> 'sid blockSearch \<Rightarrow> columnHeader \<Rightarrow> bitmap \<Rightarrow> string set \<Rightarrow> bitmap option" where
  "matchValuesDictByAnyValue E bs ch bm values =
     (case encodeDictMatches (\<lambda>v. Some (v \<in> values)) 0 (ch_valuesDict ch) of
        None \<Rightarrow> None
      | Some encodedValues \<Rightarrow> matchEncodedValuesDict bs ch bm encodedValues)"

definition matchValuesDictByPhrase ::
  "'f ext \<Rightarrow> 'sid blockSearch \<Rightarrow> columnHeader \<Rightarrow> bitmap \<Rightarrow> string \<Rightarrow> bitmap option" where
  "matchValuesDictByPhrase E bs ch bm phrase =
     (case encodeDictMatches (\<lambda>v. matchPhrase E v phrase) 0 (ch_valuesDict ch) of
        None \<Rightarrow> None
      | Some encodedValues \<Rightarrow> matchEncodedValuesDict bs ch bm encodedValues)"

text \<open>String columns.\<close>

definition matchStringByIPv4Range ::
  "'f ext \<Rightarrow> 'sid blockSearch \<Rightarrow> columnHeader \<Rightarrow> bitmap \<Rightarrow> u32 \<Rightarrow> u32 \<Rightarrow> bitmap option" where
  "matchStringByIPv4Range E bs ch bm minValue maxValue =
     visitValues bs ch bm (\<lambda>v. Some (matchIPv4Range E v minValue maxValue))"

definition matchStringByStringRange ::
  "'f ext \<Rightarrow> 'sid blockSearch \<Rightarrow> columnHeader \<Rightarrow> bitmap \<Rightarrow> string \<Rightarrow> string \<Rightarrow> bitmap option" where
  "matchStringByStringRange E bs ch bm minValue maxValue =
     visitValues bs ch bm (\<lambda>v. Some (matchStringRange v minValue maxValue))"

definition matchStringByLenRange ::
  "'f ext \<Rightarrow> 'sid blockSearch \<Rightarrow> columnHeader \<Rightarrow> bitmap \<Rightarrow> u64 \<Rightarrow> u64 \<Rightarrow> bitmap option" where
  "matchStringByLenRange E bs ch bm minLen maxLen =
     visitValues bs ch bm (\<lambda>v. Some (matchLenRange E v minLen maxLen))"

definition matchStringByRange ::
  "'f ext \<Rightarrow> 'sid blockSearch \<Rightarrow> columnHeader \<Rightarrow> bitmap \<Rightarrow> 'f \<Rightarrow> 'f \<Rightarrow> bitmap option" where
  "matchStringByRange E bs ch bm minValue maxValue =
     visitValues bs ch bm (\<lambda>v. Some (matchRange E v minValue maxValue))"

definition matchStringByRegexp ::
  "'f ext \<Rightarrow> 'sid blockSearch \<Rightarrow> columnHeader \<Rightarrow> bitmap \<Rightarrow> (string \<Rightarrow> bool) \<Rightarrow> bitmap option" where
  "matchStringByRegexp E bs ch bm re =
     visitValues bs ch bm (\<lambda>v. Some (re v))"

definition matchStringByAnyCasePrefix ::
  "'f ext \<Rightarrow> 'sid blockSearch \<Rightarrow> columnHeader \<Rightarrow> bitmap \<Rightarrow> string \<Rightarrow> bitmap option" where
  "matchStringByAnyCasePrefix E bs ch bm prefixLowercase =
     visitValues bs ch bm (\<lambda>v. matchAnyCasePrefix E v prefixLowercase)"

definition matchStringByAnyCasePhrase ::
  "'f ext \<Rightarrow> 'sid blockSearch \<Rightarrow> columnHeader \<Rightarrow> bitmap \<Rightarrow> string \<Rightarrow> bitmap option" where
  "matchStringByAnyCasePhrase E bs ch bm phraseLowercase =
     visitValues bs ch bm (\<lambda>v. matchAnyCasePhrase E v phraseLowercase)"

definition matchStringByPrefix ::
  "'f ext \<Rightarrow> 'sid blockSearch \<Rightarrow> columnHeader \<Rightarrow> bitmap \<Rightarrow> string \<Rightarrow> string list \<Rightarrow> bitmap option" where
  "matchStringByPrefix E bs ch bm pfx tokens =
     (if \<not> matchBloomFilterAllTokens E bs ch tokens then Some (resetBits bm)
      else visitValues bs ch bm (\<lambda>v. matchPrefix E v pfx))"

definition matchStringByExactValue ::
  "'f ext \<Rightarrow> 'sid blockSearch \<Rightarrow> columnHeader \<Rightarrow> bitmap \<Rightarrow> string \<Rightarrow> string list \<Rightarrow> bitmap option" where
  "matchStringByExactValue E bs ch bm val tokens =
     (if \<not> matchBloomFilterAllTokens E bs ch tokens then Some (resetBits bm)
      else visitValues bs ch bm (\<lambda>v. Some (v = val)))"

definition matchStringByPhrase ::
  "'f ext \<Rightarrow> 'sid blockSearch \<Rightarrow> columnHeader \<Rightarrow> bitmap \<Rightarrow> string \<Rightarrow> string list \<Rightarrow> bitmap option" where
  "matchStringByPhrase E bs ch bm phrase tokens =
     (if \<not> matchBloomFilterAllTokens E bs ch tokens then Some (resetBits bm)
      else visitValues bs ch bm (\<lambda>v. matchPhrase E v phrase))"

text \<open>Unsigned integer columns.\<close>

definition matchUint8ByStringRange ::
  "'f ext \<Rightarrow> 'sid blockSearch \<Rightarrow> columnHeader \<Rightarrow> bitmap \<Rightarrow> string \<Rightarrow> string \<Rightarrow> bitmap option" where
  "matchUint8ByStringRange E bs ch bm minValue maxValue =
     (if cmpstring minValue ''9'' > 0 \<or> cmpstring maxValue ''0'' < 0 then Some (resetBits bm)
      else visitValues bs ch bm
             (\<lambda>v. case toUint8String E v of
                    None \<Rightarrow> None
                  | Some s \<Rightarrow> Some (matchStringRange s minValue maxValue)))"

definition matchUint16ByStringRange ::
  "'f ext \<Rightarrow> 'sid blockSearch \<Rightarrow> columnHeader \<Rightarrow> bitmap \<Rightarrow> string \<Rightarrow> string \<Rightarrow> bitmap option" where
  "matchUint16ByStringRange E bs ch bm minValue maxValue =
     (if cmpstring minValue ''9'' > 0 \<or> cmpstring maxValue ''0'' < 0 then Some (resetBits bm)
      else visitValues bs ch bm
             (\<lambda>v. case toUint16String E v of
                    None \<Rightarrow> None
                  | Some s \<Rightarrow> Some (matchStringRange s minValue maxValue)))"

definition matchUint32ByStringRange ::
  "'f ext \<Rightarrow> 'sid blockSearch \<Rightarrow> columnHeader \<Rightarrow> bitmap \<Rightarrow> string \<Rightarrow> string \<Rightarrow> bitmap option" where
  "matchUint32ByStringRange E bs ch bm minValue maxValue =
     (if cmpstring minValue ''9'' > 0 \<or> cmpstring maxValue ''0'' < 0 then Some (resetBits bm)
      else visitValues bs ch bm
             (\<lambda>v. case toUint32String E v of
                    None \<Rightarrow> None
                  | Some s \<Rightarrow> Some (matchStringRange s minValue maxValue)))"

definition matchUint64ByStringRange ::
  "'f ext \<Rightarrow> 'sid blockSearch \<Rightarrow> columnHeader \<Rightarrow> bitmap \<Rightarrow> string \<Rightarrow> string \<Rightarrow> bitmap option" where
  "matchUint64ByStringRange E bs ch bm minValue maxValue =
     (if cmpstring minValue ''9'' > 0 \<or> cmpstring maxValue ''0'' < 0 then Some (resetBits bm)
      else visitValues bs ch bm
             (\<lambda>v. case toUint64String E v of
                    None \<Rightarrow> None
                  | Some s \<Rightarrow> Some (matchStringRange s minValue maxValue)))"

definition matchMinMaxValueLen :: "'f ext \<Rightarrow> columnHeader \<Rightarrow> u64 \<Rightarrow> u64 \<Rightarrow> bool" where
  "matchMinMaxValueLen E ch minLen maxLen =
     (let s = AppendUint E (ch_minValue ch) in
      if maxLen < (of_nat (length s) :: u64) then False
      else
        let s1 = AppendUint E (ch_maxValue ch)
        in minLen \<le> (of_nat (length s1) :: u64))"

definition matchUint8ByLenRange ::
  "'f ext \<Rightarrow> 'sid blockSearch \<Rightarrow> columnHeader \<Rightarrow> bitmap \<Rightarrow> u64 \<Rightarrow> u64 \<Rightarrow> bitmap option" where
  "matchUint8ByLenRange E bs ch bm minLen maxLen =
     (if \<not> matchMinMaxValueLen E ch minLen maxLen then Some (resetBits bm)
      else visitValues bs ch bm
             (\<lambda>v. case toUint8String E v of
                    None \<Rightarrow> None
                  | Some s \<Rightarrow> Some (matchLenRange E s minLen maxLen)))"

definition matchUint16ByLenRange ::
  "'f ext \<Rightarrow> 'sid blockSearch \<Rightarrow> columnHeader \<Rightarrow> bitmap \<Rightarrow> u64 \<Rightarrow> u64 \<Rightarrow> bitmap option" where
  "matchUint16ByLenRange E bs ch bm minLen maxLen =
     (if \<not> matchMinMaxValueLen E ch minLen maxLen then Some (resetBits bm)
      else visitValues bs ch bm
             (\<lambda>v. case toUint16String E v of
                    None \<Rightarrow> None
                  | Some s \<Rightarrow> Some (matchLenRange E s minLen maxLen)))"

definition matchUint32ByLenRange ::
  "'f ext \<Rightarrow> 'sid blockSearch \<Rightarrow> columnHeader \<Rightarrow> bitmap \<Rightarrow> u64 \<Rightarrow> u64 \<Rightarrow> bitmap option" where
  "matchUint32ByLenRange E bs ch bm minLen maxLen =
     (if \<not> matchMinMaxValueLen E ch minLen maxLen then Some (resetBits bm)
      else visitValues bs ch bm
             (\<lambda>v. case toUint32String E v of
                    None \<Rightarrow> None
                  | Some s \<Rightarrow> Some (matchLenRange E s minLen maxLen)))"

definition matchUint64ByLenRange ::
  "'f ext \<Rightarrow> 'sid blockSearch \<Rightarrow> columnHeader \<Rightarrow> bitmap \<Rightarrow> u64 \<Rightarrow> u64 \<Rightarrow> bitmap option" where
  "matchUint64ByLenRange E bs ch bm minLen maxLen =
     (if \<not> matchMinMaxValueLen E ch minLen maxLen then Some (resetBits bm)
      else visitValues bs ch bm
             (\<lambda>v. case toUint64String E v of
                    None \<Rightarrow> None
                  | Some s \<Rightarrow> Some (matchLenRange E s minLen maxLen)))"

definition matchUint8ByRange ::
  "'f ext \<Rightarrow> 'sid blockSearch \<Rightarrow> columnHeader \<Rightarrow> bitmap \<Rightarrow> 'f \<Rightarrow> 'f \<Rightarrow> bitmap option" where
  "matchUint8ByRange E bs ch bm minValue maxValue =
     (case toUint64Range E minValue maxValue of
        (minValueUint, maxValueUint) \<Rightarrow>
          if f64_less E maxValue (f64_zero E) \<or> minValueUint > ch_maxValue ch \<or>
             maxValueUint < ch_minValue ch
          then Some (resetBits bm)
          else visitValues bs ch bm
                 (\<lambda>v. if length v \<noteq> 1 then None
                      else Some (let n = (of_char (v ! 0) :: u64) in n \<ge> minValueUint \<and> n \<le> maxValueUint)))"

definition matchUint16ByRange ::
  "'f ext \<Rightarrow> 'sid blockSearch \<Rightarrow> columnHeader \<Rightarrow> bitmap \<Rightarrow> 'f \<Rightarrow> 'f \<Rightarrow> bitmap option" where
  "matchUint16ByRange E bs ch bm minValue maxValue =
     (case toUint64Range E minValue maxValue of
        (minValueUint, maxValueUint) \<Rightarrow>
          if f64_less E maxValue (f64_zero E) \<or> minValueUint > ch_maxValue ch \<or>
             maxValueUint < ch_minValue ch
          then Some (resetBits bm)
          else visitValues bs ch bm
                 (\<lambda>v. if length v \<noteq> 2 then None
                      else Some (let n = (ucast (UnmarshalUint16 E v) :: u64) in n \<ge> minValueUint \<and> n \<le> maxValueUint)))"

definition matchUint32ByRange ::
  "'f ext \<Rightarrow> 'sid blockSearch \<Rightarrow> columnHeader \<Rightarrow> bitmap \<Rightarrow> 'f \<Rightarrow> 'f \<Rightarrow> bitmap option" where
  "matchUint32ByRange E bs ch bm minValue maxValue =
     (case toUint64Range E minValue maxValue of
        (minValueUint, maxValueUint) \<Rightarrow>
          if f64_less E maxValue (f64_zero E) \<or> minValueUint > ch_maxValue ch \<or>
             maxValueUint < ch_minValue ch
          then Some (resetBits bm)
          else visitValues bs ch bm
                 (\<lambda>v. if length v \<noteq> 4 then None
                      else Some (let n = (ucast (UnmarshalUint32 E v) :: u64) in n \<ge> minValueUint \<and> n \<le> maxValueUint)))"

definition matchUint64ByRange ::
  "'f ext \<Rightarrow> 'sid blockSearch \<Rightarrow> columnHeader \<Rightarrow> bitmap \<Rightarrow> 'f \<Rightarrow> 'f \<Rightarrow> bitmap option" where
  "matchUint64ByRange E bs ch bm minValue maxValue =
     (case toUint64Range E minValue maxValue of
        (minValueUint, maxValueUint) \<Rightarrow>
          if f64_less E maxValue (f64_zero E) \<or> minValueUint > ch_maxValue ch \<or>
             maxValueUint < ch_minValue ch
          then Some (resetBits bm)
          else visitValues bs ch bm
                 (\<lambda>v. if length v \<noteq> 8 then None
                      else (case UnmarshalUint64 (ToUnsafeBytes v) of
                         None \<Rightarrow> None
                       | Some n \<Rightarrow> Some (n \<ge> minValueUint \<and> n \<le> maxValueUint))))"

definition matchUint8ByRegexp ::
  "'f ext \<Rightarrow> 'sid blockSearch \<Rightarrow> columnHeader \<Rightarrow> bitmap \<Rightarrow> (string \<Rightarrow> bool) \<Rightarrow> bitmap option" where
  "matchUint8ByRegexp E bs ch bm re =
     visitValues bs ch bm
       (\<lambda>v. case toUint8String E v of
              None \<Rightarrow> None
            | Some s \<Rightarrow> Some (re s))"

definition matchUint16ByRegexp ::
  "'f ext \<Rightarrow> 'sid blockSearch \<Rightarrow> columnHeader \<Rightarrow> bitmap \<Rightarrow> (string \<Rightarrow> bool) \<Rightarrow> bitmap option" where
  "matchUint16ByRegexp E bs ch bm re =
     visitValues bs ch bm
       (\<lambda>v. case toUint16String E v of
              None \<Rightarrow> None
            | Some s \<Rightarrow> Some (re s))"

definition matchUint32ByRegexp ::
  "'f ext \<Rightarrow> 'sid blockSearch \<Rightarrow> columnHeader \<Rightarrow> bitmap \<Rightarrow> (string \<Rightarrow> bool) \<Rightarrow> bitmap option" where
  "matchUint32ByRegexp E bs ch bm re =
     visitValues bs ch bm
       (\<lambda>v. case toUint32String E v of
              None \<Rightarrow> None
            | Some s \<Rightarrow> Some (re s))"

definition matchUint64ByRegexp ::
  "'f ext \<Rightarrow> 'sid blockSearch \<Rightarrow> columnHeader \<Rightarrow> bitmap \<Rightarrow> (string \<Rightarrow> bool) \<Rightarrow> bitmap option" where
  "matchUint64ByRegexp E bs ch bm re =
     visitValues bs ch bm
       (\<lambda>v. case toUint64String E v of
              None \<Rightarrow> None
            | Some s \<Rightarrow> Some (re s))"

definition matchUint8ByPrefix ::
  "'f ext \<Rightarrow> 'sid blockSearch \<Rightarrow> columnHeader \<Rightarrow> bitmap \<Rightarrow> string \<Rightarrow> bitmap option" where
  "matchUint8ByPrefix E bs ch bm pfx =
     (if pfx = [] then Some bm
      else case tryParseUint64 E pfx of
             None \<Rightarrow> Some (resetBits bm)
           | Some n \<Rightarrow>
               if n > ch_maxValue ch then Some (resetBits bm)
               else visitValues bs ch bm
                      (\<lambda>v. case toUint8String E v of
                             None \<Rightarrow> None
                           | Some s \<Rightarrow> matchPrefix E s pfx))"

definition matchUint16ByPrefix ::
  "'f ext \<Rightarrow> 'sid blockSearch \<Rightarrow> columnHeader \<Rightarrow> bitmap \<Rightarrow> string \<Rightarrow> bitmap option" where
  "matchUint16ByPrefix E bs ch bm pfx =
     (if pfx = [] then Some bm
      else case tryParseUint64 E pfx of
             None \<Rightarrow> Some (resetBits bm)
           | Some n \<Rightarrow>
               if n > ch_maxValue ch then Some (resetBits bm)
               else visitValues bs ch bm
                      (\<lambda>v. case toUint16String E v of
                             None \<Rightarrow> None
                           | Some s \<Rightarrow> matchPrefix E s pfx))"

definition matchUint32ByPrefix ::
  "'f ext \<Rightarrow> 'sid blockSearch \<Rightarrow> columnHeader \<Rightarrow> bitmap \<Rightarrow> string \<Rightarrow> bitmap option" where
  "matchUint32ByPrefix E bs ch bm pfx =
     (if pfx = [] then Some bm
      else case tryParseUint64 E pfx of
             None \<Rightarrow> Some (resetBits bm)
           | Some n \<Rightarrow>
               if n > ch_maxValue ch then Some (resetBits bm)
               else visitValues bs ch bm
                      (\<lambda>v. case toUint32String E v of
                             None \<Rightarrow> None
                           | Some s \<Rightarrow> matchPrefix E s pfx))"

definition matchUint64ByPrefix ::
  "'f ext \<Rightarrow> 'sid blockSearch \<Rightarrow> columnHeader \<Rightarrow> bitmap \<Rightarrow> string \<Rightarrow> bitmap option" where
  "matchUint64ByPrefix E bs ch bm pfx =
     (if pfx = [] then Some bm
      else case tryParseUint64 E pfx of
             None \<Rightarrow> Some (resetBits bm)
           | Some n \<Rightarrow>
               if n > ch_maxValue ch then Some (resetBits bm)
               else visitValues bs ch bm
                      (\<lambda>v. case toUint64String E v of
                             None \<Rightarrow> None
                           | Some s \<Rightarrow> matchPrefix E s pfx))"

definition matchUint8ByExactValue ::
  "'f ext \<Rightarrow> 'sid blockSearch \<Rightarrow> columnHeader \<Rightarrow> bitmap \<Rightarrow> string \<Rightarrow> string list \<Rightarrow> bitmap option" where
  "matchUint8ByExactValue E bs ch bm phrase tokens =
     (case tryParseUint64 E phrase of
        None \<Rightarrow> Some (resetBits bm)
      | Some n \<Rightarrow>
          if n < ch_minValue ch \<or> n > ch_maxValue ch then Some (resetBits bm)
          else matchBinaryValue E bs ch bm ([char_of (unat n)]) tokens)"

definition matchUint16ByExactValue ::
  "'f ext \<Rightarrow> 'sid blockSearch \<Rightarrow> columnHeader \<Rightarrow> bitmap \<Rightarrow> string \<Rightarrow> string list \<Rightarrow> bitmap option" where
  "matchUint16ByExactValue E bs ch bm phrase tokens =
     (case tryParseUint64 E phrase of
        None \<Rightarrow> Some (resetBits bm)
      | Some n \<Rightarrow>
          if n < ch_minValue ch \<or> n > ch_maxValue ch then Some (resetBits bm)
          else matchBinaryValue E bs ch bm (MarshalUint16 E (ucast n)) tokens)"

definition matchUint32ByExactValue ::
  "'f ext \<Rightarrow> 'sid blockSearch \<Rightarrow> columnHeader \<Rightarrow> bitmap \<Rightarrow> string \<Rightarrow> string list \<Rightarrow> bitmap option" where
  "matchUint32ByExactValue E bs ch bm phrase tokens =
     (case tryParseUint64 E phrase of
        None \<Rightarrow> Some (resetBits bm)
      | Some n \<Rightarrow>
          if n < ch_minValue ch \<or> n > ch_maxValue ch then Some (resetBits bm)
          else matchBinaryValue E bs ch bm (MarshalUint32 E (ucast n)) tokens)"

definition matchUint64ByExactValue ::
  "'f ext \<Rightarrow> 'sid blockSearch \<Rightarrow> columnHeader \<Rightarrow> bitmap \<Rightarrow> string \<Rightarrow> string list \<Rightarrow> bitmap option" where
  "matchUint64ByExactValue E bs ch bm phrase tokens =
     (case tryParseUint64 E phrase of
        None \<Rightarrow> Some (resetBits bm)
      | Some n \<Rightarrow>
          if n < ch_minValue ch \<or> n > ch_maxValue ch then Some (resetBits bm)
          else matchBinaryValue E bs ch bm (ToUnsafeString (MarshalUint64 [] n)) tokens)"

text \<open>Timestamp, IPv4 and float64 columns.\<close>

definition matchTimestampISO8601ByLenRange :: "'f ext \<Rightarrow> bitmap \<Rightarrow> u64 \<Rightarrow> u64 \<Rightarrow> bitmap option" where
  "matchTimestampISO8601ByLenRange E bm minLen maxLen =
     (if minLen > (of_nat (length (iso8601Timestamp E)) :: u64) \<or>
         maxLen < (of_nat (length (iso8601Timestamp E)) :: u64)
      then Some (resetBits bm)
      else Some bm)"

definition matchTimestampISO8601ByStringRange ::
  "'f ext \<Rightarrow> 'sid blockSearch \<Rightarrow> columnHeader \<Rightarrow> bitmap \<Rightarrow> string \<Rightarrow> string \<Rightarrow> bitmap option" where
  "matchTimestampISO8601ByStringRange E bs ch bm minValue maxValue =
     (if cmpstring minValue ''9'' > 0 \<or> cmpstring maxValue ''0'' < 0 then Some (resetBits bm)
      else visitValues bs ch bm
             (\<lambda>v. case toTimestampISO8601StringExt E v of
                    None \<Rightarrow> None
                  | Some s \<Rightarrow> Some (matchStringRange s minValue maxValue)))"

definition matchTimestampISO8601ByRegexp ::
  "'f ext \<Rightarrow> 'sid blockSearch \<Rightarrow> columnHeader \<Rightarrow> bitmap \<Rightarrow> (string \<Rightarrow> bool) \<Rightarrow> bitmap option" where
  "matchTimestampISO8601ByRegexp E bs ch bm re =
     visitValues bs ch bm
       (\<lambda>v. case toTimestampISO8601StringExt E v of
              None \<Rightarrow> None
            | Some s \<Rightarrow> Some (re s))"

definition matchIPv4ByStringRange ::
  "'f ext \<Rightarrow> 'sid blockSearch \<Rightarrow> columnHeader \<Rightarrow> bitmap \<Rightarrow> string \<Rightarrow> string \<Rightarrow> bitmap option" where
  "matchIPv4ByStringRange E bs ch bm minValue maxValue =
     (if cmpstring minValue ''9'' > 0 \<or> cmpstring maxValue ''0'' < 0 then Some (resetBits bm)
      else visitValues bs ch bm
             (\<lambda>v. case toIPv4StringExt E v of
                    None \<Rightarrow> None
                  | Some s \<Rightarrow> Some (matchStringRange s minValue maxValue)))"

definition matchIPv4ByRegexp ::
  "'f ext \<Rightarrow> 'sid blockSearch \<Rightarrow> columnHeader \<Rightarrow> bitmap \<Rightarrow> (string \<Rightarrow> bool) \<Rightarrow> bitmap option" where
  "matchIPv4ByRegexp E bs ch bm re =
     visitValues bs ch bm
       (\<lambda>v. case toIPv4StringExt E v of
              None \<Rightarrow> None
            | Some s \<Rightarrow> Some (re s))"

definition matchFloat64ByStringRange ::
  "'f ext \<Rightarrow> 'sid blockSearch \<Rightarrow> columnHeader \<Rightarrow> bitmap \<Rightarrow> string \<Rightarrow> string \<Rightarrow> bitmap option" where
  "matchFloat64ByStringRange E bs ch bm minValue maxValue =
     (if cmpstring minValue ''9'' > 0 \<or> cmpstring maxValue ''+'' < 0 then Some (resetBits bm)
      else visitValues bs ch bm
             (\<lambda>v. case toFloat64StringExt E v of
                    None \<Rightarrow> None
                  | Some s \<Rightarrow> Some (matchStringRange s minValue maxValue)))"

definition matchFloat64ByRegexp ::
  "'f ext \<Rightarrow> 'sid blockSearch \<Rightarrow> columnHeader \<Rightarrow> bitmap \<Rightarrow> (string \<Rightarrow> bool) \<Rightarrow> bitmap option" where
  "matchFloat64ByRegexp E bs ch bm re =
     visitValues bs ch bm
       (\<lambda>v. case toFloat64StringExt E v of
              None \<Rightarrow> None
            | Some s \<Rightarrow> Some (re s))"

definition matchTimestampISO8601ByPrefix ::
  "'f ext \<Rightarrow> 'sid blockSearch \<Rightarrow> columnHeader \<Rightarrow> bitmap \<Rightarrow> string \<Rightarrow> string list \<Rightarrow> bitmap option" where
  "matchTimestampISO8601ByPrefix E bs ch bm pfx tokens =
     (if pfx = [] then Some bm
      else if \<not> matchBloomFilterAllTokens E bs ch tokens then Some (resetBits bm)
      else visitValues bs ch bm
             (\<lambda>v. case toTimestampISO8601StringExt E v of
                    None \<Rightarrow> None
                  | Some s \<Rightarrow> matchPrefix E s pfx))"

definition matchIPv4ByPrefix ::
  "'f ext \<Rightarrow> 'sid blockSearch \<Rightarrow> columnHeader \<Rightarrow> bitmap \<Rightarrow> string \<Rightarrow> string list \<Rightarrow> bitmap option" where
  "matchIPv4ByPrefix E bs ch bm pfx tokens =
     (if pfx = [] then Some bm
      else if \<not> matchBloomFilterAllTokens E bs ch tokens then Some (resetBits bm)
      else visitValues bs ch bm
             (\<lambda>v. case toIPv4StringExt E v of
                    None \<Rightarrow> None
                  | Some s \<Rightarrow> matchPrefix E s pfx))"

definition matchTimestampISO8601ByExactValue ::
  "'f ext \<Rightarrow> 'sid blockSearch \<Rightarrow> columnHeader \<Rightarrow> bitmap \<Rightarrow> string \<Rightarrow> string list \<Rightarrow> bitmap option" where
  "matchTimestampISO8601ByExactValue E bs ch bm val tokens =
     (case tryParseTimestampISO8601 E val of
        None \<Rightarrow> Some (resetBits bm)
      | Some n \<Rightarrow>
          if n < ch_minValue ch \<or> n > ch_maxValue ch then Some (resetBits bm)
          else matchBinaryValue E bs ch bm (ToUnsafeString (MarshalUint64 [] n)) tokens)"

definition matchTimestampISO8601ByPhrase ::
  "'f ext \<Rightarrow> 'sid blockSearch \<Rightarrow> columnHeader \<Rightarrow> bitmap \<Rightarrow> string \<Rightarrow> string list \<Rightarrow> bitmap option" where
  "matchTimestampISO8601ByPhrase E bs ch bm phrase tokens =
     (case tryParseTimestampISO8601 E phrase of
        Some n \<Rightarrow> matchTimestampISO8601ByExactValue E bs ch bm phrase tokens
      | None \<Rightarrow>
          if \<not> matchBloomFilterAllTokens E bs ch tokens then Some (resetBits bm)
          else visitValues bs ch bm
                 (\<lambda>v. case toTimestampISO8601StringExt E v of
                        None \<Rightarrow> None
                      | Some s \<Rightarrow> matchPhrase E s phrase))"

definition matchIPv4ByLenRange ::
  "'f ext \<Rightarrow> 'sid blockSearch \<Rightarrow> columnHeader \<Rightarrow> bitmap \<Rightarrow> u64 \<Rightarrow> u64 \<Rightarrow> bitmap option" where
  "matchIPv4ByLenRange E bs ch bm minLen maxLen =
     (if minLen > (of_nat (length ''255.255.255.255'') :: u64) \<or>
         maxLen < (of_nat (length ''0.0.0.0'') :: u64)
      then Some (resetBits bm)
      else visitValues bs ch bm
             (\<lambda>v. case toIPv4StringExt E v of
                    None \<Rightarrow> None
                  | Some s \<Rightarrow> Some (matchLenRange E s minLen maxLen)))"

definition matchIPv4ByRange ::
  "'f ext \<Rightarrow> 'sid blockSearch \<Rightarrow> columnHeader \<Rightarrow> bitmap \<Rightarrow> u32 \<Rightarrow> u32 \<Rightarrow> bitmap option" where
  "matchIPv4ByRange E bs ch bm minValue maxValue =
     (if ch_minValue ch > (ucast maxValue :: u64) \<or> ch_maxValue ch < (ucast minValue :: u64)
      then Some (resetBits bm)
      else visitValues bs ch bm
             (\<lambda>v. if length v \<noteq> 4 then None
                  else let n = UnmarshalUint32 E v in Some (n \<ge> minValue \<and> n \<le> maxValue)))"

definition matchIPv4ByExactValue ::
  "'f ext \<Rightarrow> 'sid blockSearch \<Rightarrow> columnHeader \<Rightarrow> bitmap \<Rightarrow> string \<Rightarrow> string list \<Rightarrow> bitmap option" where
  "matchIPv4ByExactValue E bs ch bm val tokens =
     (case tryParseIPv4 E val of
        None \<Rightarrow> Some (resetBits bm)
      | Some n \<Rightarrow>
          if (ucast n :: u64) < ch_minValue ch \<or> (ucast n :: u64) > ch_maxValue ch
          then Some (resetBits bm)
          else matchBinaryValue E bs ch bm (MarshalUint32 E n) tokens)"

definition matchIPv4ByPhrase ::
  "'f ext \<Rightarrow> 'sid blockSearch \<Rightarrow> columnHeader \<Rightarrow> bitmap \<Rightarrow> string \<Rightarrow> string list \<Rightarrow> bitmap option" where
  "matchIPv4ByPhrase E bs ch bm phrase tokens =
     (case tryParseIPv4 E phrase of
        Some n \<Rightarrow> matchIPv4ByExactValue E bs ch bm phrase tokens
      | None \<Rightarrow>
          if \<not> matchBloomFilterAllTokens E bs ch tokens then Some (resetBits bm)
          else visitValues bs ch bm
                 (\<lambda>v. case toIPv4StringExt E v of
                        None \<Rightarrow> None
                      | Some s \<Rightarrow> matchPhrase E s phrase))"

definition matchFloat64ByLenRange ::
  "'f ext \<Rightarrow> 'sid blockSearch \<Rightarrow> columnHeader \<Rightarrow> bitmap \<Rightarrow> u64 \<Rightarrow> u64 \<Rightarrow> bitmap option" where
  "matchFloat64ByLenRange E bs ch bm minLen maxLen =
     (if minLen > 24 \<or> maxLen = 0 then Some (resetBits bm)
      else visitValues bs ch bm
             (\<lambda>v. case toFloat64StringExt E v of
                    None \<Rightarrow> None
                  | Some s \<Rightarrow> Some (matchLenRange E s minLen maxLen)))"

definition matchFloat64ByRange ::
  "'f ext \<Rightarrow> 'sid blockSearch \<Rightarrow> columnHeader \<Rightarrow> bitmap \<Rightarrow> 'f \<Rightarrow> 'f \<Rightarrow> bitmap option" where
  "matchFloat64ByRange E bs ch bm minValue maxValue =
     (if f64_less E (Float64frombits E (ch_maxValue ch)) minValue \<or>
         f64_less E maxValue (Float64frombits E (ch_minValue ch))
      then Some (resetBits bm)
      else visitValues bs ch bm
             (\<lambda>v. if length v \<noteq> 8 then None
                  else case UnmarshalUint64 (ToUnsafeBytes v) of
                         None \<Rightarrow> None
                       | Some n \<Rightarrow>
                           let f = Float64frombits E n
                           in Some (f64_less_eq E minValue f \<and> f64_less_eq E f maxValue)))"

definition matchFloat64ByPrefix ::
  "'f ext \<Rightarrow> 'sid blockSearch \<Rightarrow> columnHeader \<Rightarrow> bitmap \<Rightarrow> string \<Rightarrow> string list \<Rightarrow> bitmap option" where
  "matchFloat64ByPrefix E bs ch bm pfx tokens =
     (if pfx = [] then Some bm
      else if tryParseFloat64 E pfx = None \<and> pfx \<noteq> ''.'' \<and> pfx \<noteq> ''+'' \<and> pfx \<noteq> ''-'' \<and>
              \<not> prefix ''e'' pfx \<and> \<not> prefix ''E'' pfx
      then Some (resetBits bm)
      else if \<not> matchBloomFilterAllTokens E bs ch tokens then Some (resetBits bm)
      else visitValues bs ch bm
             (\<lambda>v. case toFloat64StringExt E v of
                    None \<Rightarrow> None
                  | Some s \<Rightarrow> matchPrefix E s pfx))"

definition matchFloat64ByExactValue ::
  "'f ext \<Rightarrow> 'sid blockSearch \<Rightarrow> columnHeader \<Rightarrow> bitmap \<Rightarrow> string \<Rightarrow> string list \<Rightarrow> bitmap option" where
  "matchFloat64ByExactValue E bs ch bm val tokens =
     (case tryParseFloat64 E val of
        None \<Rightarrow> Some (resetBits bm)
      | Some f \<Rightarrow>
          if f64_less E f (Float64frombits E (ch_minValue ch)) \<or>
             f64_less E (Float64frombits E (ch_maxValue ch)) f
          then Some (resetBits bm)
          else
            let n = Float64bits E f
            in matchBinaryValue E bs ch bm (ToUnsafeString (MarshalUint64 [] n)) tokens)"

definition matchFloat64ByPhrase ::
  "'f ext \<Rightarrow> 'sid blockSearch \<Rightarrow> columnHeader \<Rightarrow> bitmap \<Rightarrow> string \<Rightarrow> string list \<Rightarrow> bitmap option" where
  "matchFloat64ByPhrase E bs ch bm phrase tokens =
     (if tryParseFloat64 E phrase = None \<and> phrase \<noteq> ''.'' \<and> phrase \<noteq> ''+'' \<and> phrase \<noteq> ''-''
      then Some (resetBits bm)
      else
        let n = Index phrase ''.'' in
        if n > 0 \<and> n < int (length phrase) - 1
        then matchFloat64ByExactValue E bs ch bm phrase tokens
        else if \<not> matchBloomFilterAllTokens E bs ch tokens then Some (resetBits bm)
        else visitValues bs ch bm
               (\<lambda>v. case toFloat64StringExt E v of
                      None \<Rightarrow> None
                    | Some s \<Rightarrow> matchPhrase E s phrase))"

text \<open>
  The filters. Every struct of the sources that implements \<open>filter\<close> is a constructor, with
  the struct's query parameters as arguments; the lazily initialised caches (\<open>sync.Once\<close>)
  are the functions \<open>get...\<close> below, computed from the parameters. For \<open>streamFilter\<close> the
  arguments are \<open>fs.f.isEmpty()\<close> and the stream identifiers that
  \<open>fs.idb.searchStreamIDs(fs.tenantIDs, fs.f)\<close> resolves; for \<open>regexpFilter\<close> the regular
  expression is its \<open>MatchString\<close>.
\<close>

datatype ('f, 'sid) filter =
    streamFilter bool "'sid list"
  | exactFilter string string
  | inFilter string "string list"
  | ipv4RangeFilter string u32 u32
  | stringRangeFilter string string string
  | lenRangeFilter string u64 u64
  | rangeFilter string 'f 'f
  | regexpFilter string "string \<Rightarrow> bool"
  | anyCasePrefixFilter string string
  | prefixFilter string string
  | anyCasePhraseFilter string string
  | phraseFilter string string

text \<open>\<open>streamFilter\<close>.\<close>

definition getStreamIDs :: "'sid list \<Rightarrow> 'sid set" where
  "getStreamIDs streamIDs = set streamIDs"

definition streamFilter_apply ::
  "bool \<Rightarrow> 'sid list \<Rightarrow> 'sid blockSearch \<Rightarrow> bitmap \<Rightarrow> bitmap option" where
  "streamFilter_apply isEmpty ids bs bm =
     (if isEmpty then Some bm
      else
        let streamIDs = getStreamIDs ids
        in if streamID bs \<notin> streamIDs then Some (resetBits bm) else Some bm)"

text \<open>\<open>exactFilter\<close>.\<close>

definition exactFilter_getTokens :: "'f ext \<Rightarrow> string \<Rightarrow> string list" where
  "exactFilter_getTokens E val = tokenizeStrings E [val]"

definition exactFilter_apply ::
  "'f ext \<Rightarrow> string \<Rightarrow> string \<Rightarrow> 'sid blockSearch \<Rightarrow> bitmap \<Rightarrow> bitmap option" where
  "exactFilter_apply E fieldName val bs bm =
     (let v = getConstColumnValue bs fieldName in
      if v \<noteq> [] then (if val \<noteq> v then Some (resetBits bm) else Some bm)
      else
        case getColumnHeader bs fieldName of
          None \<Rightarrow> (if val \<noteq> [] then Some (resetBits bm) else Some bm)
        | Some ch \<Rightarrow>
            let tokens = exactFilter_getTokens E val
             in (case ch_valueType ch of
                   valueTypeString \<Rightarrow> matchStringByExactValue E bs ch bm val tokens
                 | valueTypeDict \<Rightarrow> matchValuesDictByExactValue E bs ch bm val
                 | valueTypeUint8 \<Rightarrow> matchUint8ByExactValue E bs ch bm val tokens
                 | valueTypeUint16 \<Rightarrow> matchUint16ByExactValue E bs ch bm val tokens
                 | valueTypeUint32 \<Rightarrow> matchUint32ByExactValue E bs ch bm val tokens
                 | valueTypeUint64 \<Rightarrow> matchUint64ByExactValue E bs ch bm val tokens
                 | valueTypeFloat64 \<Rightarrow> matchFloat64ByExactValue E bs ch bm val tokens
                 | valueTypeIPv4 \<Rightarrow> matchIPv4ByExactValue E bs ch bm val tokens
                 | valueTypeTimestampISO8601 \<Rightarrow> matchTimestampISO8601ByExactValue E bs ch bm val tokens
                 | valueTypeUnknown \<Rightarrow> None))"

text \<open>
  \<open>inFilter\<close>. A Go \<open>map[string]struct{}\<close> is a set of strings. \<open>initTokenSets\<close> stops
  after a value whose token list is longer than \<open>maxTokenSetsToInit\<close>.
\<close>

fun initTokenSets_loop :: "'f ext \<Rightarrow> string list list \<Rightarrow> string list \<Rightarrow> string list list" where
  "initTokenSets_loop E tokenSets [] = tokenSets"
| "initTokenSets_loop E tokenSets (v # vs) =
     (let tokens = tokenizeStrings E [v];
          tokenSets1 = tokenSets @ [tokens]
      in if length tokens > maxTokenSetsToInit then tokenSets1
         else initTokenSets_loop E tokenSets1 vs)"

definition getTokenSets :: "'f ext \<Rightarrow> string list \<Rightarrow> string list list" where
  "getTokenSets E vals = initTokenSets_loop E [] vals"

fun initStringValues_loop :: "string set \<Rightarrow> string list \<Rightarrow> string set" where
  "initStringValues_loop m [] = m"
| "initStringValues_loop m (v # vs) = initStringValues_loop (insert v m) vs"

definition getStringValues :: "string list \<Rightarrow> string set" where
  "getStringValues vals = initStringValues_loop {} vals"

fun initUint8Values_loop :: "'f ext \<Rightarrow> string set \<Rightarrow> string list \<Rightarrow> string set" where
  "initUint8Values_loop E m [] = m"
| "initUint8Values_loop E m (v # vs) =
     (case tryParseUint64 E v of
        None \<Rightarrow> initUint8Values_loop E m vs
      | Some n \<Rightarrow>
          if n \<ge> 2 ^ 8 then initUint8Values_loop E m vs
          else initUint8Values_loop E (insert [char_of (unat n)] m) vs)"

definition getUint8Values :: "'f ext \<Rightarrow> string list \<Rightarrow> string set" where
  "getUint8Values E vals = initUint8Values_loop E {} vals"

fun initUint16Values_loop :: "'f ext \<Rightarrow> string set \<Rightarrow> string list \<Rightarrow> string set" where
  "initUint16Values_loop E m [] = m"
| "initUint16Values_loop E m (v # vs) =
     (case tryParseUint64 E v of
        None \<Rightarrow> initUint16Values_loop E m vs
      | Some n \<Rightarrow>
          if n \<ge> 2 ^ 16 then initUint16Values_loop E m vs
          else initUint16Values_loop E (insert (MarshalUint16 E (ucast n)) m) vs)"

definition getUint16Values :: "'f ext \<Rightarrow> string list \<Rightarrow> string set" where
  "getUint16Values E vals = initUint16Values_loop E {} vals"

fun initUint32Values_loop :: "'f ext \<Rightarrow> string set \<Rightarrow> string list \<Rightarrow> string set" where
  "initUint32Values_loop E m [] = m"
| "initUint32Values_loop E m (v # vs) =
     (case tryParseUint64 E v of
        None \<Rightarrow> initUint32Values_loop E m vs
      | Some n \<Rightarrow>
          if n \<ge> 2 ^ 32 then initUint32Values_loop E m vs
          else initUint32Values_loop E (insert (MarshalUint32 E (ucast n)) m) vs)"

definition getUint32Values :: "'f ext \<Rightarrow> string list \<Rightarrow> string set" where
  "getUint32Values E vals = initUint32Values_loop E {} vals"

fun initUint64Values_loop :: "'f ext \<Rightarrow> string set \<Rightarrow> string list \<Rightarrow> string set" where
  "initUint64Values_loop E m [] = m"
| "initUint64Values_loop E m (v # vs) =
     (case tryParseUint64 E v of
        None \<Rightarrow> initUint64Values_loop E m vs
      | Some n \<Rightarrow> initUint64Values_loop E (insert (ToUnsafeString (MarshalUint64 [] n)) m) vs)"

definition getUint64Values :: "'f ext \<Rightarrow> string list \<Rightarrow> string set" where
  "getUint64Values E vals = initUint64Values_loop E {} vals"

fun initFloat64Values_loop :: "'f ext \<Rightarrow> string set \<Rightarrow> string list \<Rightarrow> string set" where
  "initFloat64Values_loop E m [] = m"
| "initFloat64Values_loop E m (v # vs) =
     (case tryParseFloat64 E v of
        None \<Rightarrow> initFloat64Values_loop E m vs
      | Some f \<Rightarrow>
          let n = Float64bits E f
          in initFloat64Values_loop E (insert (ToUnsafeString (MarshalUint64 [] n)) m) vs)"

definition getFloat64Values :: "'f ext \<Rightarrow> string list \<Rightarrow> string set" where
  "getFloat64Values E vals = initFloat64Values_loop E {} vals"

fun initIPv4Values_loop :: "'f ext \<Rightarrow> string set \<Rightarrow> string list \<Rightarrow> string set" where
  "initIPv4Values_loop E m [] = m"
| "initIPv4Values_loop E m (v # vs) =
     (case tryParseIPv4 E v of
        None \<Rightarrow> initIPv4Values_loop E m vs
      | Some n \<Rightarrow> initIPv4Values_loop E (insert (MarshalUint32 E n) m) vs)"

definition getIPv4Values :: "'f ext \<Rightarrow> string list \<Rightarrow> string set" where
  "getIPv4Values E vals = initIPv4Values_loop E {} vals"

fun initTimestampISO8601Values_loop :: "'f ext \<Rightarrow> string set \<Rightarrow> string list \<Rightarrow> string set" where
  "initTimestampISO8601Values_loop E m [] = m"
| "initTimestampISO8601Values_loop E m (v # vs) =
     (case tryParseTimestampISO8601 E v of
        None \<Rightarrow> initTimestampISO8601Values_loop E m vs
      | Some n \<Rightarrow>
          initTimestampISO8601Values_loop E (insert (ToUnsafeString (MarshalUint64 [] n)) m) vs)"

definition getTimestampISO8601Values :: "'f ext \<Rightarrow> string list \<Rightarrow> string set" where
  "getTimestampISO8601Values E vals = initTimestampISO8601Values_loop E {} vals"

definition inFilter_apply ::
  "'f ext \<Rightarrow> string \<Rightarrow> string list \<Rightarrow> 'sid blockSearch \<Rightarrow> bitmap \<Rightarrow> bitmap option" where
  "inFilter_apply E fieldName vals bs bm =
     (if length vals = 0 then Some (resetBits bm)
      else let v = getConstColumnValue bs fieldName in
      if v \<noteq> [] then (if v \<notin> getStringValues vals then Some (resetBits bm) else Some bm)
      else
        case getColumnHeader bs fieldName of
          None \<Rightarrow> (if [] \<notin> getStringValues vals then Some (resetBits bm) else Some bm)
        | Some ch \<Rightarrow>
            let tokenSets = getTokenSets E vals
             in (case ch_valueType ch of
                   valueTypeString \<Rightarrow> matchAnyValue E bs ch bm (getStringValues vals) tokenSets
                 | valueTypeDict \<Rightarrow> matchValuesDictByAnyValue E bs ch bm (getStringValues vals)
                 | valueTypeUint8 \<Rightarrow> matchAnyValue E bs ch bm (getUint8Values E vals) tokenSets
                 | valueTypeUint16 \<Rightarrow> matchAnyValue E bs ch bm (getUint16Values E vals) tokenSets
                 | valueTypeUint32 \<Rightarrow> matchAnyValue E bs ch bm (getUint32Values E vals) tokenSets
                 | valueTypeUint64 \<Rightarrow> matchAnyValue E bs ch bm (getUint64Values E vals) tokenSets
                 | valueTypeFloat64 \<Rightarrow> matchAnyValue E bs ch bm (getFloat64Values E vals) tokenSets
                 | valueTypeIPv4 \<Rightarrow> matchAnyValue E bs ch bm (getIPv4Values E vals) tokenSets
                 | valueTypeTimestampISO8601 \<Rightarrow> matchAnyValue E bs ch bm (getTimestampISO8601Values E vals) tokenSets
                 | valueTypeUnknown \<Rightarrow> None))"

text \<open>The range filters and \<open>regexpFilter\<close>.\<close>

definition ipv4RangeFilter_apply ::
  "'f ext \<Rightarrow> string \<Rightarrow> u32 \<Rightarrow> u32 \<Rightarrow> 'sid blockSearch \<Rightarrow> bitmap \<Rightarrow> bitmap option" where
  "ipv4RangeFilter_apply E fieldName minValue maxValue bs bm =
     (if minValue > maxValue then Some (resetBits bm)
      else let v = getConstColumnValue bs fieldName in
      if v \<noteq> [] then (if \<not> matchIPv4Range E v minValue maxValue then Some (resetBits bm) else Some bm)
      else
        case getColumnHeader bs fieldName of
          None \<Rightarrow> Some (resetBits bm)
        | Some ch \<Rightarrow>
            (case ch_valueType ch of
               valueTypeString \<Rightarrow> matchStringByIPv4Range E bs ch bm minValue maxValue
             | valueTypeDict \<Rightarrow> matchValuesDictByIPv4Range E bs ch bm minValue maxValue
             | valueTypeUint8 \<Rightarrow> Some (resetBits bm)
             | valueTypeUint16 \<Rightarrow> Some (resetBits bm)
             | valueTypeUint32 \<Rightarrow> Some (resetBits bm)
             | valueTypeUint64 \<Rightarrow> Some (resetBits bm)
             | valueTypeFloat64 \<Rightarrow> Some (resetBits bm)
             | valueTypeIPv4 \<Rightarrow> matchIPv4ByRange E bs ch bm minValue maxValue
             | valueTypeTimestampISO8601 \<Rightarrow> Some (resetBits bm)
             | valueTypeUnknown \<Rightarrow> None))"

definition stringRangeFilter_apply ::
  "'f ext \<Rightarrow> string \<Rightarrow> string \<Rightarrow> string \<Rightarrow> 'sid blockSearch \<Rightarrow> bitmap \<Rightarrow> bitmap option" where
  "stringRangeFilter_apply E fieldName minValue maxValue bs bm =
     (if cmpstring minValue maxValue > 0 then Some (resetBits bm)
      else let v = getConstColumnValue bs fieldName in
      if v \<noteq> [] then (if \<not> matchStringRange v minValue maxValue then Some (resetBits bm) else Some bm)
      else
        case getColumnHeader bs fieldName of
          None \<Rightarrow> (if \<not> matchStringRange [] minValue maxValue then Some (resetBits bm) else Some bm)
        | Some ch \<Rightarrow>
            (case ch_valueType ch of
               valueTypeString \<Rightarrow> matchStringByStringRange E bs ch bm minValue maxValue
             | valueTypeDict \<Rightarrow> matchValuesDictByStringRange E bs ch bm minValue maxValue
             | valueTypeUint8 \<Rightarrow> matchUint8ByStringRange E bs ch bm minValue maxValue
             | valueTypeUint16 \<Rightarrow> matchUint16ByStringRange E bs ch bm minValue maxValue
             | valueTypeUint32 \<Rightarrow> matchUint32ByStringRange E bs ch bm minValue maxValue
             | valueTypeUint64 \<Rightarrow> matchUint64ByStringRange E bs ch bm minValue maxValue
             | valueTypeFloat64 \<Rightarrow> matchFloat64ByStringRange E bs ch bm minValue maxValue
             | valueTypeIPv4 \<Rightarrow> matchIPv4ByStringRange E bs ch bm minValue maxValue
             | valueTypeTimestampISO8601 \<Rightarrow> matchTimestampISO8601ByStringRange E bs ch bm minValue maxValue
             | valueTypeUnknown \<Rightarrow> None))"

definition lenRangeFilter_apply ::
  "'f ext \<Rightarrow> string \<Rightarrow> u64 \<Rightarrow> u64 \<Rightarrow> 'sid blockSearch \<Rightarrow> bitmap \<Rightarrow> bitmap option" where
  "lenRangeFilter_apply E fieldName minLen maxLen bs bm =
     (if minLen > maxLen then Some (resetBits bm)
      else let v = getConstColumnValue bs fieldName in
      if v \<noteq> [] then (if \<not> matchLenRange E v minLen maxLen then Some (resetBits bm) else Some bm)
      else
        case getColumnHeader bs fieldName of
          None \<Rightarrow> (if \<not> matchLenRange E [] minLen maxLen then Some (resetBits bm) else Some bm)
        | Some ch \<Rightarrow>
            (case ch_valueType ch of
               valueTypeString \<Rightarrow> matchStringByLenRange E bs ch bm minLen maxLen
             | valueTypeDict \<Rightarrow> matchValuesDictByLenRange E bs ch bm minLen maxLen
             | valueTypeUint8 \<Rightarrow> matchUint8ByLenRange E bs ch bm minLen maxLen
             | valueTypeUint16 \<Rightarrow> matchUint16ByLenRange E bs ch bm minLen maxLen
             | valueTypeUint32 \<Rightarrow> matchUint32ByLenRange E bs ch bm minLen maxLen
             | valueTypeUint64 \<Rightarrow> matchUint64ByLenRange E bs ch bm minLen maxLen
             | valueTypeFloat64 \<Rightarrow> matchFloat64ByLenRange E bs ch bm minLen maxLen
             | valueTypeIPv4 \<Rightarrow> matchIPv4ByLenRange E bs ch bm minLen maxLen
             | valueTypeTimestampISO8601 \<Rightarrow> matchTimestampISO8601ByLenRange E bm minLen maxLen
             | valueTypeUnknown \<Rightarrow> None))"

definition rangeFilter_apply ::
  "'f ext \<Rightarrow> string \<Rightarrow> 'f \<Rightarrow> 'f \<Rightarrow> 'sid blockSearch \<Rightarrow> bitmap \<Rightarrow> bitmap option" where
  "rangeFilter_apply E fieldName minValue maxValue bs bm =
     (if f64_less E maxValue minValue then Some (resetBits bm)
      else let v = getConstColumnValue bs fieldName in
      if v \<noteq> [] then (if \<not> matchRange E v minValue maxValue then Some (resetBits bm) else Some bm)
      else
        case getColumnHeader bs fieldName of
          None \<Rightarrow> Some (resetBits bm)
        | Some ch \<Rightarrow>
            (case ch_valueType ch of
               valueTypeString \<Rightarrow> matchStringByRange E bs ch bm minValue maxValue
             | valueTypeDict \<Rightarrow> matchValuesDictByRange E bs ch bm minValue maxValue
             | valueTypeUint8 \<Rightarrow> matchUint8ByRange E bs ch bm minValue maxValue
             | valueTypeUint16 \<Rightarrow> matchUint16ByRange E bs ch bm minValue maxValue
             | valueTypeUint32 \<Rightarrow> matchUint32ByRange E bs ch bm minValue maxValue
             | valueTypeUint64 \<Rightarrow> matchUint64ByRange E bs ch bm minValue maxValue
             | valueTypeFloat64 \<Rightarrow> matchFloat64ByRange E bs ch bm minValue maxValue
             | valueTypeIPv4 \<Rightarrow> Some (resetBits bm)
             | valueTypeTimestampISO8601 \<Rightarrow> Some (resetBits bm)
             | valueTypeUnknown \<Rightarrow> None))"

definition regexpFilter_apply ::
  "'f ext \<Rightarrow> string \<Rightarrow> (string \<Rightarrow> bool) \<Rightarrow> 'sid blockSearch \<Rightarrow> bitmap \<Rightarrow> bitmap option" where
  "regexpFilter_apply E fieldName re bs bm =
     (let v = getConstColumnValue bs fieldName in
      if v \<noteq> [] then (if \<not> re v then Some (resetBits bm) else Some bm)
      else
        case getColumnHeader bs fieldName of
          None \<Rightarrow> (if \<not> re [] then Some (resetBits bm) else Some bm)
        | Some ch \<Rightarrow>
            (case ch_valueType ch of
               valueTypeString \<Rightarrow> matchStringByRegexp E bs ch bm re
             | valueTypeDict \<Rightarrow> matchValuesDictByRegexp E bs ch bm re
             | valueTypeUint8 \<Rightarrow> matchUint8ByRegexp E bs ch bm re
             | valueTypeUint16 \<Rightarrow> matchUint16ByRegexp E bs ch bm re
             | valueTypeUint32 \<Rightarrow> matchUint32ByRegexp E bs ch bm re
             | valueTypeUint64 \<Rightarrow> matchUint64ByRegexp E bs ch bm re
             | valueTypeFloat64 \<Rightarrow> matchFloat64ByRegexp E bs ch bm re
             | valueTypeIPv4 \<Rightarrow> matchIPv4ByRegexp E bs ch bm re
             | valueTypeTimestampISO8601 \<Rightarrow> matchTimestampISO8601ByRegexp E bs ch bm re
             | valueTypeUnknown \<Rightarrow> None))"

text \<open>
  The prefix and phrase filters. \<open>getPrefixLowercase\<close> and \<open>getPhraseLowercase\<close> are
  \<open>strings.ToLower\<close> of the parameter; they are computed on entry, the tokens only after
  the column header is found.
\<close>

definition anyCasePrefixFilter_apply ::
  "'f ext \<Rightarrow> string \<Rightarrow> string \<Rightarrow> 'sid blockSearch \<Rightarrow> bitmap \<Rightarrow> bitmap option" where
  "anyCasePrefixFilter_apply E fieldName pfx bs bm =
     (let prefixLowercase = ToLower E pfx;
          v = getConstColumnValue bs fieldName in
      if v \<noteq> [] then (case matchAnyCasePrefix E v prefixLowercase of None \<Rightarrow> None | Some ok \<Rightarrow> if \<not> ok then Some (resetBits bm) else Some bm)
      else
        case getColumnHeader bs fieldName of
          None \<Rightarrow> Some (resetBits bm)
        | Some ch \<Rightarrow>
            (case getTokensSkipLast E pfx of
                None \<Rightarrow> None
              | Some tokens \<Rightarrow>
                (case ch_valueType ch of
                   valueTypeString \<Rightarrow> matchStringByAnyCasePrefix E bs ch bm prefixLowercase
                 | valueTypeDict \<Rightarrow> matchValuesDictByAnyCasePrefix E bs ch bm prefixLowercase
                 | valueTypeUint8 \<Rightarrow> matchUint8ByPrefix E bs ch bm prefixLowercase
                 | valueTypeUint16 \<Rightarrow> matchUint16ByPrefix E bs ch bm prefixLowercase
                 | valueTypeUint32 \<Rightarrow> matchUint32ByPrefix E bs ch bm prefixLowercase
                 | valueTypeUint64 \<Rightarrow> matchUint64ByPrefix E bs ch bm prefixLowercase
                 | valueTypeFloat64 \<Rightarrow> matchFloat64ByPrefix E bs ch bm prefixLowercase tokens
                 | valueTypeIPv4 \<Rightarrow> matchIPv4ByPrefix E bs ch bm prefixLowercase tokens
                 | valueTypeTimestampISO8601 \<Rightarrow> (let prefixUppercase = ToUpper E pfx
                     in matchTimestampISO8601ByPrefix E bs ch bm prefixUppercase tokens)
                 | valueTypeUnknown \<Rightarrow> None)))"

definition prefixFilter_apply ::
  "'f ext \<Rightarrow> string \<Rightarrow> string \<Rightarrow> 'sid blockSearch \<Rightarrow> bitmap \<Rightarrow> bitmap option" where
  "prefixFilter_apply E fieldName pfx bs bm =
     (let v = getConstColumnValue bs fieldName in
      if v \<noteq> [] then (case matchPrefix E v pfx of None \<Rightarrow> None | Some ok \<Rightarrow> if \<not> ok then Some (resetBits bm) else Some bm)
      else
        case getColumnHeader bs fieldName of
          None \<Rightarrow> Some (resetBits bm)
        | Some ch \<Rightarrow>
            (case getTokensSkipLast E pfx of
                None \<Rightarrow> None
              | Some tokens \<Rightarrow>
                (case ch_valueType ch of
                   valueTypeString \<Rightarrow> matchStringByPrefix E bs ch bm pfx tokens
                 | valueTypeDict \<Rightarrow> matchValuesDictByPrefix E bs ch bm pfx
                 | valueTypeUint8 \<Rightarrow> matchUint8ByPrefix E bs ch bm pfx
                 | valueTypeUint16 \<Rightarrow> matchUint16ByPrefix E bs ch bm pfx
                 | valueTypeUint32 \<Rightarrow> matchUint32ByPrefix E bs ch bm pfx
                 | valueTypeUint64 \<Rightarrow> matchUint64ByPrefix E bs ch bm pfx
                 | valueTypeFloat64 \<Rightarrow> matchFloat64ByPrefix E bs ch bm pfx tokens
                 | valueTypeIPv4 \<Rightarrow> matchIPv4ByPrefix E bs ch bm pfx tokens
                 | valueTypeTimestampISO8601 \<Rightarrow> matchTimestampISO8601ByPrefix E bs ch bm pfx tokens
                 | valueTypeUnknown \<Rightarrow> None)))"

definition anyCasePhraseFilter_apply ::
  "'f ext \<Rightarrow> string \<Rightarrow> string \<Rightarrow> 'sid blockSearch \<Rightarrow> bitmap \<Rightarrow> bitmap option" where
  "anyCasePhraseFilter_apply E fieldName phrase bs bm =
     (let phraseLowercase = ToLower E phrase;
          v = getConstColumnValue bs fieldName in
      if v \<noteq> [] then (case matchAnyCasePhrase E v phraseLowercase of None \<Rightarrow> None | Some ok \<Rightarrow> if \<not> ok then Some (resetBits bm) else Some bm)
      else
        case getColumnHeader bs fieldName of
          None \<Rightarrow> (if length phraseLowercase > 0 then Some (resetBits bm) else Some bm)
        | Some ch \<Rightarrow>
            let tokens = tokenizeStrings E [phrase]
            in (case ch_valueType ch of
                   valueTypeString \<Rightarrow> matchStringByAnyCasePhrase E bs ch bm phraseLowercase
                 | valueTypeDict \<Rightarrow> matchValuesDictByAnyCasePhrase E bs ch bm phraseLowercase
                 | valueTypeUint8 \<Rightarrow> matchUint8ByExactValue E bs ch bm phraseLowercase tokens
                 | valueTypeUint16 \<Rightarrow> matchUint16ByExactValue E bs ch bm phraseLowercase tokens
                 | valueTypeUint32 \<Rightarrow> matchUint32ByExactValue E bs ch bm phraseLowercase tokens
                 | valueTypeUint64 \<Rightarrow> matchUint64ByExactValue E bs ch bm phraseLowercase tokens
                 | valueTypeFloat64 \<Rightarrow> matchFloat64ByPhrase E bs ch bm phraseLowercase tokens
                 | valueTypeIPv4 \<Rightarrow> matchIPv4ByPhrase E bs ch bm phraseLowercase tokens
                 | valueTypeTimestampISO8601 \<Rightarrow> (let phraseUppercase = ToUpper E phrase
                     in matchTimestampISO8601ByPhrase E bs ch bm phraseUppercase tokens)
                 | valueTypeUnknown \<Rightarrow> None))"

definition phraseFilter_apply ::
  "'f ext \<Rightarrow> string \<Rightarrow> string \<Rightarrow> 'sid blockSearch \<Rightarrow> bitmap \<Rightarrow> bitmap option" where
  "phraseFilter_apply E fieldName phrase bs bm =
     (let v = getConstColumnValue bs fieldName in
      if v \<noteq> [] then (case matchPhrase E v phrase of None \<Rightarrow> None | Some ok \<Rightarrow> if \<not> ok then Some (resetBits bm) else Some bm)
      else
        case getColumnHeader bs fieldName of
          None \<Rightarrow> (if length phrase > 0 then Some (resetBits bm) else Some bm)
        | Some ch \<Rightarrow>
            let tokens = tokenizeStrings E [phrase]
            in (case ch_valueType ch of
                   valueTypeString \<Rightarrow> matchStringByPhrase E bs ch bm phrase tokens
                 | valueTypeDict \<Rightarrow> matchValuesDictByPhrase E bs ch bm phrase
                 | valueTypeUint8 \<Rightarrow> matchUint8ByExactValue E bs ch bm phrase tokens
                 | valueTypeUint16 \<Rightarrow> matchUint16ByExactValue E bs ch bm phrase tokens
                 | valueTypeUint32 \<Rightarrow> matchUint32ByExactValue E bs ch bm phrase tokens
                 | valueTypeUint64 \<Rightarrow> matchUint64ByExactValue E bs ch bm phrase tokens
                 | valueTypeFloat64 \<Rightarrow> matchFloat64ByPhrase E bs ch bm phrase tokens
                 | valueTypeIPv4 \<Rightarrow> matchIPv4ByPhrase E bs ch bm phrase tokens
                 | valueTypeTimestampISO8601 \<Rightarrow> matchTimestampISO8601ByPhrase E bs ch bm phrase tokens
                 | valueTypeUnknown \<Rightarrow> None))"

text \<open>\<open>f.apply(bs, bm)\<close> on a value \<open>f\<close> of the interface \<open>filter\<close>: the method of its own type.\<close>

fun filter_apply :: "'f ext \<Rightarrow> ('f, 'sid) filter \<Rightarrow> 'sid blockSearch \<Rightarrow> bitmap \<Rightarrow> bitmap option" where
  "filter_apply E (streamFilter isEmpty ids) bs bm = streamFilter_apply isEmpty ids bs bm"
| "filter_apply E (exactFilter fieldName val) bs bm = exactFilter_apply E fieldName val bs bm"
| "filter_apply E (inFilter fieldName vals) bs bm = inFilter_apply E fieldName vals bs bm"
| "filter_apply E (ipv4RangeFilter fieldName minValue maxValue) bs bm =
     ipv4RangeFilter_apply E fieldName minValue maxValue bs bm"
| "filter_apply E (stringRangeFilter fieldName minValue maxValue) bs bm =
     stringRangeFilter_apply E fieldName minValue maxValue bs bm"
| "filter_apply E (lenRangeFilter fieldName minLen maxLen) bs bm =
     lenRangeFilter_apply E fieldName minLen maxLen bs bm"
| "filter_apply E (rangeFilter fieldName minValue maxValue) bs bm =
     rangeFilter_apply E fieldName minValue maxValue bs bm"
| "filter_apply E (regexpFilter fieldName re) bs bm = regexpFilter_apply E fieldName re bs bm"
| "filter_apply E (anyCasePrefixFilter fieldName pfx) bs bm = anyCasePrefixFilter_apply E fieldName pfx bs bm"
| "filter_apply E (prefixFilter fieldName pfx) bs bm = prefixFilter_apply E fieldName pfx bs bm"
| "filter_apply E (anyCasePhraseFilter fieldName phrase) bs bm =
     anyCasePhraseFilter_apply E fieldName phrase bs bm"
| "filter_apply E (phraseFilter fieldName phrase) bs bm = phraseFilter_apply E fieldName phrase bs bm"

text \<open>
  The result of a filter narrows the bitmap: the length is kept and every bit set afterwards
  was set before. A panic leaves no bitmap to compare.
\<close>

definition narrows :: "bitmap \<Rightarrow> bitmap option \<Rightarrow> bool" where
  "narrows bm r =
     (case r of
        None \<Rightarrow> True
      | Some bm' \<Rightarrow> length bm' = length bm \<and> (\<forall>i<length bm. bm' ! i \<longrightarrow> bm ! i))"

text \<open>A block of four rows, with a constant column, a string column and a uint8 column.\<close>

definition sampleBlock :: "nat blockSearch" where
  "sampleBlock = \<lparr>
     getConstColumnValue = (\<lambda>name. if name = ''host'' then ''web-1'' else []),
     getColumnHeader = (\<lambda>name.
        if name = ''level''
        then Some \<lparr>ch_valueType = valueTypeString, ch_minValue = 0, ch_maxValue = 0, ch_valuesDict = []\<rparr>
        else if name = ''code''
        then Some \<lparr>ch_valueType = valueTypeUint8, ch_minValue = 1, ch_maxValue = 7, ch_valuesDict = []\<rparr>
        else None),
     getValuesForColumn = (\<lambda>ch.
        if ch_valueType ch = valueTypeUint8
        then [[CHR 0x02], [CHR 0x01], [CHR 0x07], [CHR 0x03]]
        else [''info'', ''error'', ''warn'', ''error'']),
     getBloomFilterForColumn = (\<lambda>ch. \<lparr>bits = []\<rparr>),
     rowsCount = 4,
     streamID = 7 \<rparr>"

section \<open>Bloom filter: no false negatives\<close>

lemma mask_test: "((w::u64) AND 2 ^ j = 0) = (\<not> bit w j)"
  by (simp add: and_exp_eq_0_iff_not_bit)

lemma mask_set: "j < 64 \<Longrightarrow> bit ((w::u64) OR 2 ^ j) k = (bit w k \<or> k = j)"
  by (auto simp add: bit_simps)

lemma idx_in_range: "bs \<noteq> [] \<Longrightarrow> (unat h mod (length bs * 64)) div 64 < length bs"
  by (simp add: less_mult_imp_div_less)

lemma initBloomFilter_spec:
  "bs \<noteq> [] \<Longrightarrow> \<exists>bs'. initBloomFilter bs hs = Some bs' \<and> length bs' = length bs \<and>
     (\<forall>i k. i < length bs \<longrightarrow> bit (bs ! i) k \<longrightarrow> bit (bs' ! i) k) \<and>
     (\<forall>h \<in> set hs. probe bs' h)"
proof (induction hs arbitrary: bs)
  case Nil
  then show ?case by simp
next
  case (Cons h hs)
  define idx where "idx = unat h mod (length bs * 64)"
  define i where "i = idx div 64"
  define j where "j = idx mod 64"
  define bs1 where "bs1 = (if (bs ! i) AND (push_bit j 1 :: u64) = 0 then bs[i := (bs ! i) OR push_bit j 1] else bs)"
  have i: "i < length bs" using Cons.prems by (simp add: i_def idx_def idx_in_range)
  have j: "j < 64" by (simp add: j_def)
  have len1: "length bs1 = length bs" by (simp add: bs1_def)
  have ne1: "bs1 \<noteq> []" using Cons.prems len1 by auto
  have step: "initBloomFilter bs (h # hs) = initBloomFilter bs1 hs"
    using Cons.prems i by (simp add: Let_def bs1_def i_def j_def idx_def)
  have mono1: "\<And>i' k. i' < length bs \<Longrightarrow> bit (bs ! i') k \<Longrightarrow> bit (bs1 ! i') k"
    using i j by (auto simp add: bs1_def nth_list_update mask_set)
  have set1: "bit (bs1 ! i) j"
    using i j by (auto simp add: bs1_def mask_test mask_set)
  from Cons.IH [OF ne1] obtain bs' where r: "initBloomFilter bs1 hs = Some bs'"
    and l: "length bs' = length bs1"
    and m: "\<forall>i k. i < length bs1 \<longrightarrow> bit (bs1 ! i) k \<longrightarrow> bit (bs' ! i) k"
    and p: "\<forall>h \<in> set hs. probe bs' h" by blast
  have "probe bs' h"
    using m i set1 len1 l by (simp add: probe_def Let_def idx_def [symmetric] i_def [symmetric] j_def [symmetric])
  with r l m p mono1 len1 step show ?case by auto
qed

lemma containsAll_loop_probe:
  "bs \<noteq> [] \<Longrightarrow> \<forall>h \<in> set hs. probe bs h \<Longrightarrow> containsAll_loop bs hs = Some True"
proof (induction hs)
  case Nil
  then show ?case by simp
next
  case (Cons h hs)
  then show ?case
    by (simp add: Let_def probe_def idx_in_range mask_test)
qed

lemma set_token_hashes:
  "set (token_hashes Sum64 n hp dst) = set dst \<union> set (token_hashes Sum64 n hp [])"
proof (induction n arbitrary: hp dst)
  case 0
  then show ?case by simp
next
  case (Suc n)
  show ?case
    using Suc.IH [of "hp + 1" "dst @ [Sum64 (hp_buf hp)]"] Suc.IH [of "hp + 1" "[Sum64 (hp_buf hp)]"]
    by auto
qed

lemma set_tokens_hashes_loop:
  "set (tokens_hashes_loop Sum64 dst tokens) =
     set dst \<union> (\<Union>t \<in> set tokens. set (token_hashes Sum64 bloomFilterHashesCount (Sum64 (ToUnsafeBytes t)) []))"
proof (induction tokens arbitrary: dst)
  case Nil
  then show ?case by simp
next
  case (Cons t ts)
  show ?case
    by (simp add: Cons.IH set_token_hashes [of _ _ _ dst] Un_assoc)
qed

lemma appendTokensHashes_subset:
  "set sub \<subseteq> set tokens \<Longrightarrow>
   set (appendTokensHashes Sum64 SL' [] sub) \<subseteq> set (appendTokensHashes Sum64 SL [] tokens)"
  by (auto simp add: appendTokensHashes_def set_tokens_hashes_loop)

text \<open>
  C1. A bloom filter built by \<open>mustInitTokens\<close> from a list of tokens contains the hashes
  that \<open>appendTokensHashes\<close> derives from any list of tokens drawn from the same set:
  \<open>mustInitTokens\<close> returns and \<open>containsAll\<close> returns true. This holds for every hash
  function, every previous content of the filter and every content \<open>SetLength\<close> leaves in
  the resized slice.
\<close>

theorem bloom_no_false_negatives:
  assumes len: "\<And>a n. length (SetLength a n) = n"
    and sub: "set sub \<subseteq> set tokens"
  shows "\<exists>bf'. mustInitTokens Sum64 SetLength bf tokens = Some bf' \<and>
           containsAll bf' (appendTokensHashes Sum64 SetLength' [] sub) = Some True"
proof (cases "tokens = []")
  case True
  with sub have "sub = []" by simp
  moreover have "\<And>a. SetLength a 0 = []" using len [of _ 0] by simp
  moreover have "\<And>a. take 0 a = []" by simp
  ultimately show ?thesis using True
    by (simp add: mustInitTokens_def bloomFilterAddTokens_def appendTokensHashes_def
        containsAll_def len)
next
  case False
  define bs where "bs = SetLength (bits bf) ((length tokens * bloomFilterBitsPerItem + 63) div 64)"
  have "length bs = (length tokens * bloomFilterBitsPerItem + 63) div 64"
    by (simp add: bs_def len)
  moreover have "0 < length tokens" using False by simp
  then have "0 < (length tokens * 16 + 63) div 64" by arith
  ultimately have ne: "bs \<noteq> []"
    by (auto simp add: bloomFilterBitsPerItem_def)
  from initBloomFilter_spec [OF ne, of "appendTokensHashes Sum64 SetLength [] tokens"]
  obtain bs' where r: "initBloomFilter bs (appendTokensHashes Sum64 SetLength [] tokens) = Some bs'"
    and l: "length bs' = length bs"
    and p: "\<forall>h \<in> set (appendTokensHashes Sum64 SetLength [] tokens). probe bs' h" by blast
  have ne': "bs' \<noteq> []" using ne l by auto
  have "\<forall>h \<in> set (appendTokensHashes Sum64 SetLength' [] sub). probe bs' h"
    using p appendTokensHashes_subset [OF sub, of Sum64 SetLength' SetLength] by blast
  then have "containsAll_loop bs' (appendTokensHashes Sum64 SetLength' [] sub) = Some True"
    by (rule containsAll_loop_probe [OF ne'])
  with r ne' show ?thesis
    by (simp add: mustInitTokens_def bloomFilterAddTokens_def bs_def [symmetric] containsAll_def)
qed

theorem bloom_no_false_negatives_witness:
  "\<exists>bf'. mustInitTokens (\<lambda>b. foldr (\<lambda>x acc. ucast x + 31 * acc) b 7) SetLength_fresh
            \<lparr>bits = [5]\<rparr> [''foo'', ''bar'', ''baz''] = Some bf' \<and>
         containsAll bf' (appendTokensHashes (\<lambda>b. foldr (\<lambda>x acc. ucast x + 31 * acc) b 7)
            SetLength_fresh [] [''baz'', ''foo'']) = Some True"
proof -
  have h: "\<And>a n. length (SetLength_fresh a n) = n" by (simp add: SetLength_fresh_def)
  have s: "set [''baz'', ''foo''] \<subseteq> set [''foo'', ''bar'', ''baz'']" by simp
  show ?thesis
    by (rule bloom_no_false_negatives [where SetLength = SetLength_fresh, OF h s])
qed

section \<open>Bloom filter: serialization\<close>

lemma le_decode_byte:
  "k < length bs \<Longrightarrow> length bs \<le> 8 \<Longrightarrow> (ucast (drop_bit (8 * k) (le_decode bs)) :: byte) = bs ! k"
proof (induction bs arbitrary: k)
  case Nil
  then show ?case by simp
next
  case (Cons b bs)
  show ?case
  proof (cases k)
    case 0
    show ?thesis unfolding 0 le_decode_def
      by (rule bit_word_eqI) (auto simp add: bit_simps)
  next
    case (Suc k')
    with Cons.prems have k': "k' < length bs" "length bs \<le> 8" "k' < 7" by simp_all
    have ih: "(ucast (drop_bit (8 * k') (le_decode bs)) :: byte) = bs ! k'"
      using Cons.IH k' by simp
    have "(ucast (drop_bit (8 * k) (le_decode (b # bs))) :: byte) = ucast (drop_bit (8 * k') (le_decode bs))"
      using k' unfolding Suc le_decode_def
      by (intro bit_word_eqI) (auto simp add: bit_simps dest: bit_imp_le_length)
    with ih Suc show ?thesis by simp
  qed
qed

lemma Unmarshal_Marshal:
  assumes "UnmarshalUint64 src = Some w"
  shows "MarshalUint64 dst w = dst @ take 8 src"
proof -
  from assms have len: "8 \<le> length src" and w: "w = le_decode (take 8 src)"
    by (auto simp add: UnmarshalUint64_def le_decode_def split: if_splits)
  have "map (\<lambda>k. ucast (drop_bit (8 * k) w) :: byte) [0..<8] = take 8 src"
  proof (rule nth_equalityI)
    show "length (map (\<lambda>k. ucast (drop_bit (8 * k) w) :: byte) [0..<8]) = length (take 8 src)"
      using len by simp
  next
    fix i assume "i < length (map (\<lambda>k. ucast (drop_bit (8 * k) w) :: byte) [0..<8])"
    then have i: "i < 8" by simp
    then have "(ucast (drop_bit (8 * i) w) :: byte) = take 8 src ! i"
      unfolding w using len by (intro le_decode_byte) simp_all
    with i show "map (\<lambda>k. ucast (drop_bit (8 * k) w) :: byte) [0..<8] ! i = take 8 src ! i"
      by (simp del: upt_Suc)
  qed
  then show ?thesis by (simp add: MarshalUint64_def)
qed

lemma unmarshal_words_marshal:
  "i \<le> n \<Longrightarrow> length bs = n \<Longrightarrow> length src = 8 * (n - i) \<Longrightarrow>
   \<exists>bs'. unmarshal_words [i..<n] bs src = Some bs' \<and> length bs' = n \<and>
         take i bs' = take i bs \<and> (\<forall>dst. marshal_words dst (drop i bs') = dst @ src)"
proof (induction "n - i" arbitrary: i bs src)
  case 0
  then show ?case by simp
next
  case (Suc m)
  then have i: "i < n" and len: "8 \<le> length src" by simp_all
  then obtain w where w: "UnmarshalUint64 src = Some w"
    by (auto simp add: UnmarshalUint64_def)
  define bs1 where "bs1 = bs[i := w]"
  have step: "unmarshal_words [i..<n] bs src = unmarshal_words [Suc i..<n] bs1 (drop 8 src)"
    using i len w Suc.prems by (simp add: upt_conv_Cons bs1_def)
  have "m = n - Suc i" using Suc.hyps by simp
  moreover have "Suc i \<le> n" using i by simp
  moreover have "length bs1 = n" using Suc.prems by (simp add: bs1_def)
  moreover have "length (drop 8 src) = 8 * (n - Suc i)" using Suc.prems i by simp
  ultimately obtain bs' where r: "unmarshal_words [Suc i..<n] bs1 (drop 8 src) = Some bs'"
    and l: "length bs' = n" and t: "take (Suc i) bs' = take (Suc i) bs1"
    and m: "\<forall>dst. marshal_words dst (drop (Suc i) bs') = dst @ drop 8 src"
    using Suc.hyps(1) [of "Suc i" bs1 "drop 8 src"] by blast
  have "bs' ! i = bs1 ! i"
    using t by (metis lessI nth_take)
  then have bi: "bs' ! i = w" using i Suc.prems by (simp add: bs1_def)
  have ti: "take i bs' = take i bs"
  proof -
    have "take i (take (Suc i) bs') = take i (take (Suc i) bs1)" using t by simp
    then show ?thesis by (simp add: bs1_def min_def)
  qed
  have d: "drop i bs' = w # drop (Suc i) bs'"
    using i l bi by (metis Cons_nth_drop_Suc)
  have "\<forall>dst. marshal_words dst (drop i bs') = dst @ src"
  proof
    fix dst
    have "marshal_words dst (drop i bs') = (dst @ take 8 src) @ drop 8 src"
      unfolding d using m Unmarshal_Marshal [OF w] by simp
    then show "marshal_words dst (drop i bs') = dst @ src" by simp
  qed
  with step r l ti show ?case by simp
qed

text \<open>
  C3. \<open>unmarshal\<close> returns an error exactly when the length of the input is not a multiple
  of 8 (and then the error reports that length); on every input whose length is a multiple of
  8 it succeeds, and marshalling the resulting filter gives back the input bytes
  (appended to \<open>dst\<close>, so the input itself for an empty \<open>dst\<close>).
\<close>

theorem unmarshal_marshal_roundtrip:
  assumes len: "\<And>a n. length (SetLength a n) = n"
  shows "((\<exists>e. unmarshal SetLength bf src = Inl e) \<longleftrightarrow> length src mod 8 \<noteq> 0) \<and>
         (length src mod 8 \<noteq> 0 \<longrightarrow> unmarshal SetLength bf src = Inl (UnmarshalSizeError (length src))) \<and>
         (length src mod 8 = 0 \<longrightarrow>
            (\<exists>bf'. unmarshal SetLength bf src = Inr bf' \<and> marshal bf' [] = src \<and>
                   (\<forall>dst. marshal bf' dst = dst @ src)))"
proof (cases "length src mod 8 = 0")
  case False
  then show ?thesis by (simp add: unmarshal_def)
next
  case True
  define n where "n = length src div 8"
  define bs where "bs = SetLength (bits (reset bf)) n"
  have "length bs = n" by (simp add: bs_def len)
  moreover have "length src = 8 * (n - 0)" using True by (auto simp add: n_def)
  ultimately obtain bs' where r: "unmarshal_words [0..<n] bs src = Some bs'"
    and m: "\<forall>dst. marshal_words dst (drop 0 bs') = dst @ src"
    using unmarshal_words_marshal [of 0 n bs src] by blast
  have "unmarshal SetLength bf src = Inr ((reset bf)\<lparr>bits := bs'\<rparr>)"
    using True r \<open>length bs = n\<close> by (simp add: unmarshal_def Let_def n_def [symmetric] bs_def [symmetric])
  moreover have "\<forall>dst. marshal ((reset bf)\<lparr>bits := bs'\<rparr>) dst = dst @ src"
    using m by (simp add: marshal_def)
  ultimately show ?thesis using True by simp
qed

theorem unmarshal_marshal_roundtrip_witness:
  "(\<exists>bf'. unmarshal SetLength_fresh \<lparr>bits = [7]\<rparr> [1, 2, 3, 4, 5, 6, 7, 8, 9, 10, 11, 12, 13, 14, 15, 16] = Inr bf' \<and>
          marshal bf' [] = [1, 2, 3, 4, 5, 6, 7, 8, 9, 10, 11, 12, 13, 14, 15, 16]) \<and>
   unmarshal SetLength_fresh \<lparr>bits = [7]\<rparr> [1, 2, 3] = Inl (UnmarshalSizeError 3)"
proof -
  have h: "\<And>a n. length (SetLength_fresh a n) = n" by (simp add: SetLength_fresh_def)
  show ?thesis
    using unmarshal_marshal_roundtrip [where SetLength = SetLength_fresh and bf = "\<lparr>bits = [7]\<rparr>" and src = "[1, 2, 3, 4, 5, 6, 7, 8, 9, 10, 11, 12, 13, 14, 15, 16]", OF h]
      unmarshal_marshal_roundtrip [where SetLength = SetLength_fresh and bf = "\<lparr>bits = [7]\<rparr>" and src = "[1, 2, 3]", OF h]
    by auto
qed

section \<open>Phrase, prefix and string-range matchers\<close>

lemma Index_spec:
  "(Index s sub = - 1 \<and> (\<forall>k. \<not> occurs_at s sub k)) \<or>
   (\<exists>n. Index s sub = int n \<and> occurs_at s sub n \<and> (\<forall>k<n. \<not> occurs_at s sub k))"
proof (induction s)
  case Nil
  then show ?case by (auto simp add: occurs_at_def)
next
  case (Cons c s)
  have shift: "\<And>k. occurs_at (c # s) sub (Suc k) = occurs_at s sub k"
    by (simp add: occurs_at_def)
  show ?case
  proof (cases "prefix sub (c # s)")
    case True
    then have "Index (c # s) sub = int 0 \<and> occurs_at (c # s) sub 0"
      by (simp add: occurs_at_def)
    then show ?thesis by (metis not_less_zero)
  next
    case False
    then have no0: "\<not> occurs_at (c # s) sub 0" by (simp add: occurs_at_def)
    from Cons.IH show ?thesis
    proof
      assume a: "Index s sub = - 1 \<and> (\<forall>k. \<not> occurs_at s sub k)"
      have "\<And>k. \<not> occurs_at (c # s) sub k"
      proof -
        fix k show "\<not> occurs_at (c # s) sub k"
          using no0 a shift by (cases k) simp_all
      qed
      with a False show ?thesis by simp
    next
      assume "\<exists>n. Index s sub = int n \<and> occurs_at s sub n \<and> (\<forall>k<n. \<not> occurs_at s sub k)"
      then obtain n where n: "Index s sub = int n" "occurs_at s sub n" "\<forall>k<n. \<not> occurs_at s sub k"
        by blast
      have "Index (c # s) sub = int (Suc n)" using False n(1) by simp
      moreover have "occurs_at (c # s) sub (Suc n)" using n(2) shift by simp
      moreover have "\<forall>k<Suc n. \<not> occurs_at (c # s) sub k"
      proof (intro allI impI)
        fix k assume "k < Suc n"
        then show "\<not> occurs_at (c # s) sub k"
          using no0 n(3) shift by (cases k) simp_all
      qed
      ultimately show ?thesis by blast
    qed
  qed
qed

lemma occurs_at_drop: "pos \<le> length s \<Longrightarrow> occurs_at (drop pos s) sub k = occurs_at s sub (pos + k)"
  by (auto simp add: occurs_at_def add.commute)

lemma occurs_at_bound: "occurs_at s sub p \<Longrightarrow> p + length sub \<le> length s"
  by (auto simp add: occurs_at_def dest!: prefix_length_le)

lemma insideToken_runeBefore:
  "0 < p \<Longrightarrow> p \<le> length s \<Longrightarrow> insideToken E (runeBefore E s p) = Some (tokenCharBefore E s p)"
  by (auto simp add: tokenCharBefore_def insideToken_def runeBefore_def Let_def)

lemma insideToken_runeAt:
  "p < length s \<Longrightarrow> insideToken E (runeAt E s p) = Some (tokenCharAt E s p)"
  by (auto simp add: tokenCharAt_def insideToken_def runeAt_def Let_def)

lemma getPhrasePos_loop_spec:
  "phrase \<noteq> [] \<Longrightarrow> pos \<le> length s \<Longrightarrow>
   (getPhrasePos_loop E s phrase st en pos = Some (- 1) \<and> (\<forall>q\<ge>pos. \<not> phraseAt E s phrase st en q)) \<or>
   (\<exists>p\<ge>pos. getPhrasePos_loop E s phrase st en pos = Some (int p) \<and> phraseAt E s phrase st en p \<and>
      (\<forall>q. pos \<le> q \<longrightarrow> q < p \<longrightarrow> \<not> phraseAt E s phrase st en q))"
proof (induction "length s - pos" arbitrary: pos rule: less_induct)
  case less
  note ne = less.prems(1) and le = less.prems(2)
  let ?P = "phraseAt E s phrase st en"
  from Index_spec [of "drop pos s" phrase] show ?case
  proof
    assume a: "Index (drop pos s) phrase = - 1 \<and> (\<forall>k. \<not> occurs_at (drop pos s) phrase k)"
    have "\<forall>q\<ge>pos. \<not> ?P q"
    proof (intro allI impI)
      fix q assume "pos \<le> q"
      then have "occurs_at s phrase q = occurs_at (drop pos s) phrase (q - pos)"
        using occurs_at_drop [OF le, of phrase "q - pos"] by simp
      with a show "\<not> ?P q" by (simp add: phraseAt_def)
    qed
    moreover have "getPhrasePos_loop E s phrase st en pos = Some (- 1)"
      using a le by (subst getPhrasePos_loop.simps) simp
    ultimately show ?thesis by blast
  next
    assume "\<exists>n. Index (drop pos s) phrase = int n \<and> occurs_at (drop pos s) phrase n \<and>
                (\<forall>k<n. \<not> occurs_at (drop pos s) phrase k)"
    then obtain n where n: "Index (drop pos s) phrase = int n"
      and occ: "occurs_at (drop pos s) phrase n"
      and first: "\<forall>k<n. \<not> occurs_at (drop pos s) phrase k" by blast
    define p where "p = pos + n"
    have occp: "occurs_at s phrase p" using occ occurs_at_drop [OF le] by (simp add: p_def)
    have pb: "p + length phrase \<le> length s" using occp by (rule occurs_at_bound)
    have plt: "p < length s" using pb ne by (cases phrase) simp_all
    have before: "\<forall>q. pos \<le> q \<longrightarrow> q < p \<longrightarrow> \<not> ?P q"
    proof (intro allI impI)
      fix q assume q: "pos \<le> q" "q < p"
      then have "occurs_at s phrase q = occurs_at (drop pos s) phrase (q - pos)"
        using occurs_at_drop [OF le, of phrase "q - pos"] by simp
      moreover have "q - pos < n" using q by (simp add: p_def)
      ultimately show "\<not> ?P q" using first by (simp add: phraseAt_def)
    qed
    have unfold: "getPhrasePos_loop E s phrase st en pos =
      (case (if st \<and> 0 < p then insideToken E (runeBefore E s p) else Some False) of
         None \<Rightarrow> None
       | Some True \<Rightarrow> getPhrasePos_loop E s phrase st en (p + 1)
       | Some False \<Rightarrow>
           (case (if en \<and> p + length phrase < length s
                  then insideToken E (runeAt E s (p + length phrase)) else Some False) of
              None \<Rightarrow> None
            | Some True \<Rightarrow> getPhrasePos_loop E s phrase st en (p + 1)
            | Some False \<Rightarrow> Some (int p)))"
    proof -
      have a: "\<not> length s < pos" using le by simp
      have b: "\<not> (int n < 0)" by simp
      have c: "pos + nat (int n) = p" by (simp add: p_def)
      show ?thesis
        by (subst getPhrasePos_loop.simps) (simp only: Let_def n a b c if_False)
    qed
    have rec: "\<not> ?P p \<Longrightarrow> getPhrasePos_loop E s phrase st en pos = getPhrasePos_loop E s phrase st en (p + 1)
        \<Longrightarrow> ?thesis"
    proof -
      assume np: "\<not> ?P p" and eq: "getPhrasePos_loop E s phrase st en pos = getPhrasePos_loop E s phrase st en (p + 1)"
      have m: "length s - (p + 1) < length s - pos" using plt by (simp add: p_def)
      have l: "p + 1 \<le> length s" using plt by simp
      from less.hyps [OF m ne l] show ?thesis
      proof
        assume a: "getPhrasePos_loop E s phrase st en (p + 1) = Some (- 1) \<and> (\<forall>q\<ge>p + 1. \<not> ?P q)"
        have "\<forall>q\<ge>pos. \<not> ?P q"
        proof (intro allI impI)
          fix q assume "pos \<le> q"
          then consider "q < p" | "q = p" | "p + 1 \<le> q" by linarith
          then show "\<not> ?P q" using before np a \<open>pos \<le> q\<close> by cases auto
        qed
        with a eq show ?thesis by simp
      next
        assume "\<exists>p'\<ge>p + 1. getPhrasePos_loop E s phrase st en (p + 1) = Some (int p') \<and> ?P p' \<and>
                  (\<forall>q. p + 1 \<le> q \<longrightarrow> q < p' \<longrightarrow> \<not> ?P q)"
        then obtain p' where p': "p + 1 \<le> p'" "getPhrasePos_loop E s phrase st en (p + 1) = Some (int p')"
          "?P p'" "\<forall>q. p + 1 \<le> q \<longrightarrow> q < p' \<longrightarrow> \<not> ?P q" by blast
        have "\<forall>q. pos \<le> q \<longrightarrow> q < p' \<longrightarrow> \<not> ?P q"
        proof (intro allI impI)
          fix q assume q: "pos \<le> q" "q < p'"
          then consider "q < p" | "q = p" | "p + 1 \<le> q" by linarith
          then show "\<not> ?P q" using before np p'(4) q by cases auto
        qed
        moreover have "pos \<le> p'" using p'(1) by (simp add: p_def)
        ultimately show ?thesis using p' eq by auto
      qed
    qed
    show ?thesis
    proof (cases "st \<and> 0 < p \<and> tokenCharBefore E s p")
      case True
      then have "\<not> ?P p" by (simp add: phraseAt_def)
      moreover have "getPhrasePos_loop E s phrase st en pos = getPhrasePos_loop E s phrase st en (p + 1)"
        using True plt by (subst unfold) (simp add: insideToken_runeBefore)
      ultimately show ?thesis by (rule rec)
    next
      case nb: False
      have first_ok: "(if st \<and> 0 < p then insideToken E (runeBefore E s p) else Some False) = Some False"
        using nb plt by (auto simp add: insideToken_runeBefore)
      show ?thesis
      proof (cases "en \<and> p + length phrase < length s \<and> tokenCharAt E s (p + length phrase)")
        case True
        then have "\<not> ?P p" by (simp add: phraseAt_def)
        moreover have "getPhrasePos_loop E s phrase st en pos = getPhrasePos_loop E s phrase st en (p + 1)"
          using True by (subst unfold, subst first_ok) (simp add: insideToken_runeAt)
        ultimately show ?thesis by (rule rec)
      next
        case False
        then have "(if en \<and> p + length phrase < length s
                  then insideToken E (runeAt E s (p + length phrase)) else Some False) = Some False"
          by (auto simp add: insideToken_runeAt)
        then have "getPhrasePos_loop E s phrase st en pos = Some (int p)"
          by (subst unfold, subst first_ok) simp
        moreover have "?P p" using occp nb False by (simp add: phraseAt_def)
        moreover have "pos \<le> p" by (simp add: p_def)
        ultimately show ?thesis using before by blast
      qed
    qed
  qed
qed

lemma matchPrefix_loop_getPhrasePos_loop:
  "matchPrefix_loop E s pfx st pos = map_option (\<lambda>n. 0 \<le> n) (getPhrasePos_loop E s pfx st False pos)"
proof (induction E s pfx st pos rule: matchPrefix_loop.induct)
  case (1 E s pfx startsWithToken offset)
  show ?case
    apply (subst matchPrefix_loop.simps)
    apply (subst getPhrasePos_loop.simps)
    using 1 by (auto simp add: Let_def split: option.splits bool.splits)
qed

lemma getPhrasePos_spec:
  assumes ne: "phrase \<noteq> []"
  shows "(getPhrasePos E s phrase = Some (- 1) \<and>
          (\<forall>q. \<not> phraseAt E s phrase (startsWithToken E phrase) (endsWithToken E phrase) q)) \<or>
         (\<exists>p. getPhrasePos E s phrase = Some (int p) \<and>
              phraseAt E s phrase (startsWithToken E phrase) (endsWithToken E phrase) p \<and>
              (\<forall>q<p. \<not> phraseAt E s phrase (startsWithToken E phrase) (endsWithToken E phrase) q))"
proof (cases "length phrase > length s")
  case True
  then have "\<forall>q. \<not> occurs_at s phrase q"
    by (auto dest!: occurs_at_bound)
  with True ne show ?thesis by (simp add: getPhrasePos_def phraseAt_def)
next
  case False
  obtain r0 where r0: "runeAt E phrase 0 = Some r0"
    using ne by (auto simp add: runeAt_def Let_def)
  obtain r1 where r1: "runeBefore E phrase (length phrase) = Some r1"
    using ne by (auto simp add: runeBefore_def Let_def)
  have eq: "getPhrasePos E s phrase =
      getPhrasePos_loop E s phrase (startsWithToken E phrase) (endsWithToken E phrase) 0"
    using ne False r0 r1 by (simp add: getPhrasePos_def startsWithToken_def endsWithToken_def)
  from getPhrasePos_loop_spec [OF ne, of 0 s E "startsWithToken E phrase" "endsWithToken E phrase"]
  show ?thesis unfolding eq by simp
qed

lemma matchPhrase_spec:
  assumes ne: "phrase \<noteq> []"
  shows "matchPhrase E s phrase =
     Some (\<exists>p. phraseAt E s phrase (startsWithToken E phrase) (endsWithToken E phrase) p)"
  using getPhrasePos_spec [OF ne, of E s] ne
  by (auto simp add: matchPhrase_def)

lemma matchPrefix_spec:
  assumes ne: "pfx \<noteq> []"
  shows "matchPrefix E s pfx = Some (\<exists>p. phraseAt E s pfx (startsWithToken E pfx) False p)"
proof (cases "length pfx > length s")
  case True
  then have "\<forall>q. \<not> occurs_at s pfx q"
    by (auto dest!: occurs_at_bound)
  with True ne show ?thesis by (simp add: matchPrefix_def phraseAt_def)
next
  case False
  obtain r0 where r0: "runeAt E pfx 0 = Some r0"
    using ne by (auto simp add: runeAt_def Let_def)
  have eq: "matchPrefix E s pfx =
      map_option (\<lambda>n. 0 \<le> n) (getPhrasePos_loop E s pfx (startsWithToken E pfx) False 0)"
    using ne False r0
    by (simp add: matchPrefix_def startsWithToken_def matchPrefix_loop_getPhrasePos_loop)
  from getPhrasePos_loop_spec [OF ne, of 0 s E "startsWithToken E pfx" False]
  show ?thesis unfolding eq by auto
qed

lemma cmpstring_less: "(cmpstring a b < 0) = (a < b)"
  by (induction a b rule: cmpstring.induct) (auto simp add: list_less_def less_char_def)

lemma cmpstring_ge: "(cmpstring a b \<ge> 0) = (b \<le> a)"
proof -
  have "(cmpstring a b \<ge> 0) = (\<not> a < b)" using cmpstring_less [of a b] by auto
  then show ?thesis by auto
qed

text \<open>The definitions that evaluate the matchers on ASCII text.\<close>

lemmas ascii_eval = matchPhrase_def getPhrasePos_def getPhrasePos_loop.simps matchPrefix_def
  matchPrefix_loop.simps runeAt_def runeBefore_def isTokenRune_def RuneSelf_def RuneError_def
  insideToken_def

text \<open>
  C4. \<open>matchPhrase\<close> is containment at token boundaries. It matches "quick" in
  "a quick fox" and not in "aquick fox"; the empty phrase matches the empty string only.
  A non-empty phrase matches exactly when it occurs at some position \<open>p\<close> of \<open>s\<close> such that,
  if the phrase starts with a token character and \<open>p > 0\<close>, the character before \<open>p\<close> is
  not a token character, and, if the phrase ends with a token character and the occurrence
  does not end \<open>s\<close>, the character after it is not a token character (an invalid UTF-8
  sequence there counts as a token character). \<open>matchPhrase\<close> never panics.
\<close>

theorem matchPhrase_token_boundaries:
  "matchPhrase E ''a quick fox'' ''quick'' = Some True \<and>
   matchPhrase E ''aquick fox'' ''quick'' = Some False \<and>
   matchPhrase E '''' '''' = Some True \<and>
   matchPhrase E ''x'' '''' = Some False \<and>
   matchPhrase E s '''' = Some (s = '''') \<and>
   (phrase \<noteq> '''' \<longrightarrow>
      matchPhrase E s phrase =
        Some (\<exists>p\<le>length s. prefix phrase (drop p s) \<and>
                (startsWithToken E phrase \<and> 0 < p \<longrightarrow> \<not> tokenCharBefore E s p) \<and>
                (endsWithToken E phrase \<and> p + length phrase < length s \<longrightarrow>
                   \<not> tokenCharAt E s (p + length phrase))))"
proof -
  have 1: "matchPhrase E ''a quick fox'' ''quick'' = Some True" by (simp add: ascii_eval)
  have 2: "matchPhrase E ''aquick fox'' ''quick'' = Some False" by (simp add: ascii_eval)
  have 3: "matchPhrase E s '''' = Some (s = '''')" for s by (simp add: matchPhrase_def)
  have 4: "matchPhrase E s phrase =
        Some (\<exists>p\<le>length s. prefix phrase (drop p s) \<and>
                (startsWithToken E phrase \<and> 0 < p \<longrightarrow> \<not> tokenCharBefore E s p) \<and>
                (endsWithToken E phrase \<and> p + length phrase < length s \<longrightarrow>
                   \<not> tokenCharAt E s (p + length phrase)))" if "phrase \<noteq> ''''"
    unfolding matchPhrase_spec [OF that] phraseAt_def occurs_at_def by auto
  show ?thesis using 1 2 3 [of "''''"] 3 [of "''x''"] 3 [of s] 4 by simp
qed

theorem matchPhrase_token_boundaries_witness:
  "''hello'' \<noteq> '''' \<and>
   matchPhrase asciiExt ''say hello_world, hello'' ''hello'' = Some True \<and>
   (\<exists>p\<le>length ''say hello_world, hello''. prefix ''hello'' (drop p ''say hello_world, hello'') \<and>
      (startsWithToken asciiExt ''hello'' \<and> 0 < p \<longrightarrow> \<not> tokenCharBefore asciiExt ''say hello_world, hello'' p) \<and>
      (endsWithToken asciiExt ''hello'' \<and> p + length ''hello'' < length ''say hello_world, hello'' \<longrightarrow>
         \<not> tokenCharAt asciiExt ''say hello_world, hello'' (p + length ''hello'')))"
proof -
  have e: "matchPhrase asciiExt ''say hello_world, hello'' ''hello'' = Some True"
    by (simp add: ascii_eval)
  show ?thesis
    using matchPhrase_token_boundaries [of asciiExt "''say hello_world, hello''" "''hello''"] e
    by simp
qed

text \<open>
  C5. \<open>matchPrefix\<close> is prefix search at a token boundary: it matches "foo" in "foobar"
  and not in "xfoobar", where the only occurrence starts inside a token; the empty prefix
  matches exactly the non-empty strings. A non-empty prefix matches exactly when it occurs
  at some position \<open>p\<close> such that, if it starts with a token character and \<open>p > 0\<close>, the
  character before \<open>p\<close> is not a token character. \<open>matchPrefix\<close> never panics.
\<close>

theorem matchPrefix_token_boundary:
  "matchPrefix E ''foobar'' ''foo'' = Some True \<and>
   matchPrefix E ''xfoobar'' ''foo'' = Some False \<and>
   matchPrefix E s '''' = Some (length s > 0) \<and>
   (pfx \<noteq> '''' \<longrightarrow>
      matchPrefix E s pfx =
        Some (\<exists>p\<le>length s. prefix pfx (drop p s) \<and>
                (startsWithToken E pfx \<and> 0 < p \<longrightarrow> \<not> tokenCharBefore E s p)))"
proof -
  have 1: "matchPrefix E ''foobar'' ''foo'' = Some True" by (simp add: ascii_eval)
  have 2: "matchPrefix E ''xfoobar'' ''foo'' = Some False" by (simp add: ascii_eval)
  have 3: "matchPrefix E s '''' = Some (length s > 0)" by (simp add: matchPrefix_def)
  have 4: "matchPrefix E s pfx =
        Some (\<exists>p\<le>length s. prefix pfx (drop p s) \<and>
                (startsWithToken E pfx \<and> 0 < p \<longrightarrow> \<not> tokenCharBefore E s p))" if "pfx \<noteq> ''''"
    unfolding matchPrefix_spec [OF that] phraseAt_def occurs_at_def by auto
  show ?thesis using 1 2 3 4 by simp
qed

theorem matchPrefix_token_boundary_witness:
  "''wor'' \<noteq> '''' \<and>
   matchPrefix asciiExt ''password: hello world'' ''wor'' = Some True \<and>
   (\<exists>p\<le>length ''password: hello world''. prefix ''wor'' (drop p ''password: hello world'') \<and>
      (startsWithToken asciiExt ''wor'' \<and> 0 < p \<longrightarrow> \<not> tokenCharBefore asciiExt ''password: hello world'' p))"
proof -
  have e: "matchPrefix asciiExt ''password: hello world'' ''wor'' = Some True"
    by (simp add: ascii_eval)
  show ?thesis
    using matchPrefix_token_boundary [of asciiExt "''password: hello world''" "''wor''"] e
    by simp
qed

text \<open>
  C6. \<open>matchStringRange\<close> is the half-open lexicographic range: it holds exactly when
  \<open>minValue \<le> s\<close> and \<open>s < maxValue\<close> in the lexicographic order of byte strings; "b" is in
  the range from "a" to "c" and "c" is not.
\<close>

theorem matchStringRange_half_open:
  "matchStringRange s minValue maxValue = (minValue \<le> s \<and> s < maxValue) \<and>
   matchStringRange ''b'' ''a'' ''c'' \<and>
   \<not> matchStringRange ''c'' ''a'' ''c''"
  by (simp add: matchStringRange_def cmpstring_less cmpstring_ge list_less_def less_char_def)

theorem matchStringRange_half_open_witness:
  "matchStringRange ''abd'' ''abc'' ''abd!'' \<and> ''abc'' \<le> ''abd'' \<and> ''abd'' < ''abd!''"
proof -
  have lo: "''abc'' \<le> ''abd''" by (simp add: list_le_def list_less_def less_char_def)
  have hi: "''abd'' < ''abd!''" by (simp add: list_less_def)
  show ?thesis
    using matchStringRange_half_open [of "''abd''" "''abc''" "''abd!''"] lo hi by simp
qed

section \<open>Filters only clear bits\<close>

lemma narrows_Some_same [simp]: "narrows bm (Some bm)"
  by (simp add: narrows_def)

lemma narrows_None [simp]: "narrows bm None"
  by (simp add: narrows_def)

lemma narrows_resetBits [simp]: "narrows bm (Some (resetBits bm))"
  by (simp add: narrows_def resetBits_def)

lemma forEachSetBit_from_narrows: "narrows bm (forEachSetBit_from f idx bm)"
proof (induction bm arbitrary: idx)
  case Nil
  then show ?case by (simp add: narrows_def)
next
  case (Cons b bm)
  have step: "narrows (b # bm) (map_option ((#) keep) r)" if "narrows bm r" "keep \<longrightarrow> b" for keep r
    using that by (cases r) (auto simp add: narrows_def nth_Cons split: nat.splits)
  show ?case
  proof (cases b)
    case True
    then show ?thesis
      using step [OF Cons.IH [of "Suc idx"]] by (cases "f idx") simp_all
  next
    case False
    then show ?thesis
      using step [OF Cons.IH [of "Suc idx"], of False] by simp
  qed
qed

lemma visitValues_narrows [simp]: "narrows bm (visitValues bs ch bm f)"
  by (simp add: visitValues_def forEachSetBit_def Let_def forEachSetBit_from_narrows)

lemma matchBinaryValue_narrows [simp]: "narrows bm (matchBinaryValue E bs ch bm binValue tokens)"
  by (simp add: matchBinaryValue_def Let_def split: option.split prod.split valueType.split)

lemma matchAnyValue_narrows [simp]: "narrows bm (matchAnyValue E bs ch bm values tokenSets)"
  by (simp add: matchAnyValue_def Let_def split: option.split prod.split valueType.split)

lemma matchEncodedValuesDict_narrows [simp]: "narrows bm (matchEncodedValuesDict bs ch bm encodedValues)"
  by (simp add: matchEncodedValuesDict_def Let_def split: option.split prod.split valueType.split)

lemma matchValuesDictByIPv4Range_narrows [simp]: "narrows bm (matchValuesDictByIPv4Range E bs ch bm minValue maxValue)"
  by (simp add: matchValuesDictByIPv4Range_def Let_def split: option.split prod.split valueType.split)

lemma matchValuesDictByStringRange_narrows [simp]: "narrows bm (matchValuesDictByStringRange E bs ch bm minValue maxValue)"
  by (simp add: matchValuesDictByStringRange_def Let_def split: option.split prod.split valueType.split)

lemma matchValuesDictByLenRange_narrows [simp]: "narrows bm (matchValuesDictByLenRange E bs ch bm minLen maxLen)"
  by (simp add: matchValuesDictByLenRange_def Let_def split: option.split prod.split valueType.split)

lemma matchValuesDictByRange_narrows [simp]: "narrows bm (matchValuesDictByRange E bs ch bm minValue maxValue)"
  by (simp add: matchValuesDictByRange_def Let_def split: option.split prod.split valueType.split)

lemma matchValuesDictByRegexp_narrows [simp]: "narrows bm (matchValuesDictByRegexp E bs ch bm re)"
  by (simp add: matchValuesDictByRegexp_def Let_def split: option.split prod.split valueType.split)

lemma matchValuesDictByAnyCasePrefix_narrows [simp]: "narrows bm (matchValuesDictByAnyCasePrefix E bs ch bm prefixLowercase)"
  by (simp add: matchValuesDictByAnyCasePrefix_def Let_def split: option.split prod.split valueType.split)

lemma matchValuesDictByAnyCasePhrase_narrows [simp]: "narrows bm (matchValuesDictByAnyCasePhrase E bs ch bm phraseLowercase)"
  by (simp add: matchValuesDictByAnyCasePhrase_def Let_def split: option.split prod.split valueType.split)

lemma matchValuesDictByPrefix_narrows [simp]: "narrows bm (matchValuesDictByPrefix E bs ch bm pfx)"
  by (simp add: matchValuesDictByPrefix_def Let_def split: option.split prod.split valueType.split)

lemma matchValuesDictByExactValue_narrows [simp]: "narrows bm (matchValuesDictByExactValue E bs ch bm val)"
  by (simp add: matchValuesDictByExactValue_def Let_def split: option.split prod.split valueType.split)

lemma matchValuesDictByAnyValue_narrows [simp]: "narrows bm (matchValuesDictByAnyValue E bs ch bm values)"
  by (simp add: matchValuesDictByAnyValue_def Let_def split: option.split prod.split valueType.split)

lemma matchValuesDictByPhrase_narrows [simp]: "narrows bm (matchValuesDictByPhrase E bs ch bm phrase)"
  by (simp add: matchValuesDictByPhrase_def Let_def split: option.split prod.split valueType.split)

lemma matchStringByIPv4Range_narrows [simp]: "narrows bm (matchStringByIPv4Range E bs ch bm minValue maxValue)"
  by (simp add: matchStringByIPv4Range_def Let_def split: option.split prod.split valueType.split)

lemma matchStringByStringRange_narrows [simp]: "narrows bm (matchStringByStringRange E bs ch bm minValue maxValue)"
  by (simp add: matchStringByStringRange_def Let_def split: option.split prod.split valueType.split)

lemma matchStringByLenRange_narrows [simp]: "narrows bm (matchStringByLenRange E bs ch bm minLen maxLen)"
  by (simp add: matchStringByLenRange_def Let_def split: option.split prod.split valueType.split)

lemma matchStringByRange_narrows [simp]: "narrows bm (matchStringByRange E bs ch bm minValue maxValue)"
  by (simp add: matchStringByRange_def Let_def split: option.split prod.split valueType.split)

lemma matchStringByRegexp_narrows [simp]: "narrows bm (matchStringByRegexp E bs ch bm re)"
  by (simp add: matchStringByRegexp_def Let_def split: option.split prod.split valueType.split)

lemma matchStringByAnyCasePrefix_narrows [simp]: "narrows bm (matchStringByAnyCasePrefix E bs ch bm prefixLowercase)"
  by (simp add: matchStringByAnyCasePrefix_def Let_def split: option.split prod.split valueType.split)

lemma matchStringByAnyCasePhrase_narrows [simp]: "narrows bm (matchStringByAnyCasePhrase E bs ch bm phraseLowercase)"
  by (simp add: matchStringByAnyCasePhrase_def Let_def split: option.split prod.split valueType.split)

lemma matchStringByPrefix_narrows [simp]: "narrows bm (matchStringByPrefix E bs ch bm pfx tokens)"
  by (simp add: matchStringByPrefix_def Let_def split: option.split prod.split valueType.split)

lemma matchStringByExactValue_narrows [simp]: "narrows bm (matchStringByExactValue E bs ch bm val tokens)"
  by (simp add: matchStringByExactValue_def Let_def split: option.split prod.split valueType.split)

lemma matchStringByPhrase_narrows [simp]: "narrows bm (matchStringByPhrase E bs ch bm phrase tokens)"
  by (simp add: matchStringByPhrase_def Let_def split: option.split prod.split valueType.split)

lemma matchUint8ByStringRange_narrows [simp]: "narrows bm (matchUint8ByStringRange E bs ch bm minValue maxValue)"
  by (simp add: matchUint8ByStringRange_def Let_def split: option.split prod.split valueType.split)

lemma matchUint16ByStringRange_narrows [simp]: "narrows bm (matchUint16ByStringRange E bs ch bm minValue maxValue)"
  by (simp add: matchUint16ByStringRange_def Let_def split: option.split prod.split valueType.split)

lemma matchUint32ByStringRange_narrows [simp]: "narrows bm (matchUint32ByStringRange E bs ch bm minValue maxValue)"
  by (simp add: matchUint32ByStringRange_def Let_def split: option.split prod.split valueType.split)

lemma matchUint64ByStringRange_narrows [simp]: "narrows bm (matchUint64ByStringRange E bs ch bm minValue maxValue)"
  by (simp add: matchUint64ByStringRange_def Let_def split: option.split prod.split valueType.split)

lemma matchUint8ByLenRange_narrows [simp]: "narrows bm (matchUint8ByLenRange E bs ch bm minLen maxLen)"
  by (simp add: matchUint8ByLenRange_def Let_def split: option.split prod.split valueType.split)

lemma matchUint16ByLenRange_narrows [simp]: "narrows bm (matchUint16ByLenRange E bs ch bm minLen maxLen)"
  by (simp add: matchUint16ByLenRange_def Let_def split: option.split prod.split valueType.split)

lemma matchUint32ByLenRange_narrows [simp]: "narrows bm (matchUint32ByLenRange E bs ch bm minLen maxLen)"
  by (simp add: matchUint32ByLenRange_def Let_def split: option.split prod.split valueType.split)

lemma matchUint64ByLenRange_narrows [simp]: "narrows bm (matchUint64ByLenRange E bs ch bm minLen maxLen)"
  by (simp add: matchUint64ByLenRange_def Let_def split: option.split prod.split valueType.split)

lemma matchUint8ByRange_narrows [simp]: "narrows bm (matchUint8ByRange E bs ch bm minValue maxValue)"
  by (simp add: matchUint8ByRange_def Let_def split: option.split prod.split valueType.split)

lemma matchUint16ByRange_narrows [simp]: "narrows bm (matchUint16ByRange E bs ch bm minValue maxValue)"
  by (simp add: matchUint16ByRange_def Let_def split: option.split prod.split valueType.split)

lemma matchUint32ByRange_narrows [simp]: "narrows bm (matchUint32ByRange E bs ch bm minValue maxValue)"
  by (simp add: matchUint32ByRange_def Let_def split: option.split prod.split valueType.split)

lemma matchUint64ByRange_narrows [simp]: "narrows bm (matchUint64ByRange E bs ch bm minValue maxValue)"
  by (simp add: matchUint64ByRange_def Let_def split: option.split prod.split valueType.split)

lemma matchUint8ByRegexp_narrows [simp]: "narrows bm (matchUint8ByRegexp E bs ch bm re)"
  by (simp add: matchUint8ByRegexp_def Let_def split: option.split prod.split valueType.split)

lemma matchUint16ByRegexp_narrows [simp]: "narrows bm (matchUint16ByRegexp E bs ch bm re)"
  by (simp add: matchUint16ByRegexp_def Let_def split: option.split prod.split valueType.split)

lemma matchUint32ByRegexp_narrows [simp]: "narrows bm (matchUint32ByRegexp E bs ch bm re)"
  by (simp add: matchUint32ByRegexp_def Let_def split: option.split prod.split valueType.split)

lemma matchUint64ByRegexp_narrows [simp]: "narrows bm (matchUint64ByRegexp E bs ch bm re)"
  by (simp add: matchUint64ByRegexp_def Let_def split: option.split prod.split valueType.split)

lemma matchUint8ByPrefix_narrows [simp]: "narrows bm (matchUint8ByPrefix E bs ch bm pfx)"
  by (simp add: matchUint8ByPrefix_def Let_def split: option.split prod.split valueType.split)

lemma matchUint16ByPrefix_narrows [simp]: "narrows bm (matchUint16ByPrefix E bs ch bm pfx)"
  by (simp add: matchUint16ByPrefix_def Let_def split: option.split prod.split valueType.split)

lemma matchUint32ByPrefix_narrows [simp]: "narrows bm (matchUint32ByPrefix E bs ch bm pfx)"
  by (simp add: matchUint32ByPrefix_def Let_def split: option.split prod.split valueType.split)

lemma matchUint64ByPrefix_narrows [simp]: "narrows bm (matchUint64ByPrefix E bs ch bm pfx)"
  by (simp add: matchUint64ByPrefix_def Let_def split: option.split prod.split valueType.split)

lemma matchUint8ByExactValue_narrows [simp]: "narrows bm (matchUint8ByExactValue E bs ch bm phrase tokens)"
  by (simp add: matchUint8ByExactValue_def Let_def split: option.split prod.split valueType.split)

lemma matchUint16ByExactValue_narrows [simp]: "narrows bm (matchUint16ByExactValue E bs ch bm phrase tokens)"
  by (simp add: matchUint16ByExactValue_def Let_def split: option.split prod.split valueType.split)

lemma matchUint32ByExactValue_narrows [simp]: "narrows bm (matchUint32ByExactValue E bs ch bm phrase tokens)"
  by (simp add: matchUint32ByExactValue_def Let_def split: option.split prod.split valueType.split)

lemma matchUint64ByExactValue_narrows [simp]: "narrows bm (matchUint64ByExactValue E bs ch bm phrase tokens)"
  by (simp add: matchUint64ByExactValue_def Let_def split: option.split prod.split valueType.split)

lemma matchTimestampISO8601ByLenRange_narrows [simp]: "narrows bm (matchTimestampISO8601ByLenRange E bm minLen maxLen)"
  by (simp add: matchTimestampISO8601ByLenRange_def Let_def split: option.split prod.split valueType.split)

lemma matchTimestampISO8601ByStringRange_narrows [simp]: "narrows bm (matchTimestampISO8601ByStringRange E bs ch bm minValue maxValue)"
  by (simp add: matchTimestampISO8601ByStringRange_def Let_def split: option.split prod.split valueType.split)

lemma matchTimestampISO8601ByRegexp_narrows [simp]: "narrows bm (matchTimestampISO8601ByRegexp E bs ch bm re)"
  by (simp add: matchTimestampISO8601ByRegexp_def Let_def split: option.split prod.split valueType.split)

lemma matchIPv4ByStringRange_narrows [simp]: "narrows bm (matchIPv4ByStringRange E bs ch bm minValue maxValue)"
  by (simp add: matchIPv4ByStringRange_def Let_def split: option.split prod.split valueType.split)

lemma matchIPv4ByRegexp_narrows [simp]: "narrows bm (matchIPv4ByRegexp E bs ch bm re)"
  by (simp add: matchIPv4ByRegexp_def Let_def split: option.split prod.split valueType.split)

lemma matchFloat64ByStringRange_narrows [simp]: "narrows bm (matchFloat64ByStringRange E bs ch bm minValue maxValue)"
  by (simp add: matchFloat64ByStringRange_def Let_def split: option.split prod.split valueType.split)

lemma matchFloat64ByRegexp_narrows [simp]: "narrows bm (matchFloat64ByRegexp E bs ch bm re)"
  by (simp add: matchFloat64ByRegexp_def Let_def split: option.split prod.split valueType.split)

lemma matchTimestampISO8601ByPrefix_narrows [simp]: "narrows bm (matchTimestampISO8601ByPrefix E bs ch bm pfx tokens)"
  by (simp add: matchTimestampISO8601ByPrefix_def Let_def split: option.split prod.split valueType.split)

lemma matchIPv4ByPrefix_narrows [simp]: "narrows bm (matchIPv4ByPrefix E bs ch bm pfx tokens)"
  by (simp add: matchIPv4ByPrefix_def Let_def split: option.split prod.split valueType.split)

lemma matchTimestampISO8601ByExactValue_narrows [simp]: "narrows bm (matchTimestampISO8601ByExactValue E bs ch bm val tokens)"
  by (simp add: matchTimestampISO8601ByExactValue_def Let_def split: option.split prod.split valueType.split)

lemma matchTimestampISO8601ByPhrase_narrows [simp]: "narrows bm (matchTimestampISO8601ByPhrase E bs ch bm phrase tokens)"
  by (simp add: matchTimestampISO8601ByPhrase_def Let_def split: option.split prod.split valueType.split)

lemma matchIPv4ByLenRange_narrows [simp]: "narrows bm (matchIPv4ByLenRange E bs ch bm minLen maxLen)"
  by (simp add: matchIPv4ByLenRange_def Let_def split: option.split prod.split valueType.split)

lemma matchIPv4ByRange_narrows [simp]: "narrows bm (matchIPv4ByRange E bs ch bm minValue maxValue)"
  by (simp add: matchIPv4ByRange_def Let_def split: option.split prod.split valueType.split)

lemma matchIPv4ByExactValue_narrows [simp]: "narrows bm (matchIPv4ByExactValue E bs ch bm val tokens)"
  by (simp add: matchIPv4ByExactValue_def Let_def split: option.split prod.split valueType.split)

lemma matchIPv4ByPhrase_narrows [simp]: "narrows bm (matchIPv4ByPhrase E bs ch bm phrase tokens)"
  by (simp add: matchIPv4ByPhrase_def Let_def split: option.split prod.split valueType.split)

lemma matchFloat64ByLenRange_narrows [simp]: "narrows bm (matchFloat64ByLenRange E bs ch bm minLen maxLen)"
  by (simp add: matchFloat64ByLenRange_def Let_def split: option.split prod.split valueType.split)

lemma matchFloat64ByRange_narrows [simp]: "narrows bm (matchFloat64ByRange E bs ch bm minValue maxValue)"
  by (simp add: matchFloat64ByRange_def Let_def split: option.split prod.split valueType.split)

lemma matchFloat64ByPrefix_narrows [simp]: "narrows bm (matchFloat64ByPrefix E bs ch bm pfx tokens)"
  by (simp add: matchFloat64ByPrefix_def Let_def split: option.split prod.split valueType.split)

lemma matchFloat64ByExactValue_narrows [simp]: "narrows bm (matchFloat64ByExactValue E bs ch bm val tokens)"
  by (simp add: matchFloat64ByExactValue_def Let_def split: option.split prod.split valueType.split)

lemma matchFloat64ByPhrase_narrows [simp]: "narrows bm (matchFloat64ByPhrase E bs ch bm phrase tokens)"
  by (simp add: matchFloat64ByPhrase_def Let_def split: option.split prod.split valueType.split)

lemma streamFilter_apply_narrows [simp]: "narrows bm (streamFilter_apply isEmpty ids bs bm)"
  by (simp add: streamFilter_apply_def Let_def split: option.split prod.split valueType.split)

lemma exactFilter_apply_narrows [simp]: "narrows bm (exactFilter_apply E fieldName val bs bm)"
  by (simp add: exactFilter_apply_def Let_def split: option.split prod.split valueType.split)

lemma inFilter_apply_narrows [simp]: "narrows bm (inFilter_apply E fieldName vals bs bm)"
  by (simp add: inFilter_apply_def Let_def split: option.split prod.split valueType.split)

lemma ipv4RangeFilter_apply_narrows [simp]: "narrows bm (ipv4RangeFilter_apply E fieldName minValue maxValue bs bm)"
  by (simp add: ipv4RangeFilter_apply_def Let_def split: option.split prod.split valueType.split)

lemma stringRangeFilter_apply_narrows [simp]: "narrows bm (stringRangeFilter_apply E fieldName minValue maxValue bs bm)"
  by (simp add: stringRangeFilter_apply_def Let_def split: option.split prod.split valueType.split)

lemma lenRangeFilter_apply_narrows [simp]: "narrows bm (lenRangeFilter_apply E fieldName minLen maxLen bs bm)"
  by (simp add: lenRangeFilter_apply_def Let_def split: option.split prod.split valueType.split)

lemma rangeFilter_apply_narrows [simp]: "narrows bm (rangeFilter_apply E fieldName minValue maxValue bs bm)"
  by (simp add: rangeFilter_apply_def Let_def split: option.split prod.split valueType.split)

lemma regexpFilter_apply_narrows [simp]: "narrows bm (regexpFilter_apply E fieldName re bs bm)"
  by (simp add: regexpFilter_apply_def Let_def split: option.split prod.split valueType.split)

lemma anyCasePrefixFilter_apply_narrows [simp]: "narrows bm (anyCasePrefixFilter_apply E fieldName pfx bs bm)"
  by (simp add: anyCasePrefixFilter_apply_def Let_def split: option.split prod.split valueType.split)

lemma prefixFilter_apply_narrows [simp]: "narrows bm (prefixFilter_apply E fieldName pfx bs bm)"
  by (simp add: prefixFilter_apply_def Let_def split: option.split prod.split valueType.split)

lemma anyCasePhraseFilter_apply_narrows [simp]: "narrows bm (anyCasePhraseFilter_apply E fieldName phrase bs bm)"
  by (simp add: anyCasePhraseFilter_apply_def Let_def split: option.split prod.split valueType.split)

lemma phraseFilter_apply_narrows [simp]: "narrows bm (phraseFilter_apply E fieldName phrase bs bm)"
  by (simp add: phraseFilter_apply_def Let_def split: option.split prod.split valueType.split)

lemma filter_apply_narrows: "narrows bm (filter_apply E f bs bm)"
  by (cases f) simp_all

text \<open>The definitions that evaluate a filter on the sample block.\<close>

lemmas sample_eval = asciiExt_def sampleBlock_def visitValues_def forEachSetBit_def isZero_def
  resetBits_def matchBloomFilterAllTokens_def matchBloomFilterAnyTokenSet_def containsAll_def
  maxTokenSetsToInit_def Let_def

text \<open>
  C2. For every filter (stream, exact, in-set, IPv4 range, string range, length range,
  numeric range, regexp, case-insensitive prefix, prefix, case-insensitive phrase, phrase),
  every block and every bitmap: when \<open>apply\<close> returns, the bitmap has its length and every
  bit set in it was set before; no cleared bit is ever set.
\<close>

theorem filter_apply_only_clears_bits:
  "filter_apply E f bs bm = Some bm' \<Longrightarrow>
   length bm' = length bm \<and> (\<forall>i<length bm. bm' ! i \<longrightarrow> bm ! i)"
  using filter_apply_narrows [of bm E f bs] by (simp add: narrows_def)

theorem filter_apply_only_clears_bits_witness:
  "filter_apply asciiExt (exactFilter ''level'' ''error'') sampleBlock [True, True, False, True] =
     Some [False, True, False, True] \<and>
   length [False, True, False, True] = length [True, True, False, True] \<and>
   \<not> (\<exists>i<length [True, True, False, True].
        [False, True, False, True] ! i \<and> \<not> [True, True, False, True] ! i)"
proof -
  have e: "filter_apply asciiExt (exactFilter ''level'' ''error'') sampleBlock [True, True, False, True] =
     Some [False, True, False, True]"
    by (simp add: exactFilter_apply_def exactFilter_getTokens_def matchStringByExactValue_def sample_eval)
  show ?thesis
    using filter_apply_only_clears_bits [OF e] e by blast
qed

section \<open>Fast paths of the exact, IPv4 range and in-set filters\<close>

text \<open>
  C7. The exact filter on a block with no constant value and no column header for the
  filter's field leaves the bitmap unchanged when the filter's value is the empty string,
  and clears the whole bitmap when the value is not empty.
\<close>

theorem exactFilter_absent_field:
  "getConstColumnValue bs fieldName = [] \<Longrightarrow> getColumnHeader bs fieldName = None \<Longrightarrow>
   (val = [] \<longrightarrow> filter_apply E (exactFilter fieldName val) bs bm = Some bm) \<and>
   (val \<noteq> [] \<longrightarrow>
      filter_apply E (exactFilter fieldName val) bs bm = Some (replicate (length bm) False))"
  by (simp add: exactFilter_apply_def resetBits_def)

theorem exactFilter_absent_field_witness:
  "getConstColumnValue sampleBlock ''absent'' = [] \<and> getColumnHeader sampleBlock ''absent'' = None \<and>
   filter_apply asciiExt (exactFilter ''absent'' []) sampleBlock [True, False, True] =
     Some [True, False, True] \<and>
   filter_apply asciiExt (exactFilter ''absent'' ''x'') sampleBlock [True, False, True] =
     Some [False, False, False]"
proof -
  have c: "getConstColumnValue sampleBlock ''absent'' = []" by (simp add: sampleBlock_def)
  have h: "getColumnHeader sampleBlock ''absent'' = None" by (simp add: sampleBlock_def)
  show ?thesis
    using c h exactFilter_absent_field [OF c h, of "[]" asciiExt "[True, False, True]"]
      exactFilter_absent_field [OF c h, of "''x''" asciiExt "[True, False, True]"]
    by simp
qed

text \<open>
  C8. An IPv4 range filter whose \<open>minValue\<close> is greater than its \<open>maxValue\<close> clears the whole
  bitmap, whatever the block holds: the result does not depend on the block's constant
  columns, column headers or rows.
\<close>

theorem ipv4RangeFilter_empty_range:
  "minValue > maxValue \<Longrightarrow>
   filter_apply E (ipv4RangeFilter fieldName minValue maxValue) bs bm =
     Some (replicate (length bm) False)"
  by (simp add: ipv4RangeFilter_apply_def resetBits_def)

theorem ipv4RangeFilter_empty_range_witness:
  "(2130706433 :: u32) > 167772161 \<and>
   filter_apply asciiExt (ipv4RangeFilter ''host'' 2130706433 167772161) sampleBlock
     [True, False, True, True] = Some [False, False, False, False]"
proof -
  have g: "(2130706433 :: u32) > 167772161" by simp
  show ?thesis
    using g ipv4RangeFilter_empty_range [OF g, of asciiExt "''host''" sampleBlock "[True, False, True, True]"]
    by simp
qed

text \<open>
  C10. An in-set filter with an empty list of values clears the whole bitmap, whatever the
  block holds.
\<close>

theorem inFilter_no_values:
  "filter_apply E (inFilter fieldName []) bs bm = Some (replicate (length bm) False)"
  by (simp add: inFilter_apply_def resetBits_def)

theorem inFilter_no_values_witness:
  "filter_apply asciiExt (inFilter ''level'' []) sampleBlock [True, False, True, True] =
     Some [False, False, False, False]"
  using inFilter_no_values [of asciiExt "''level''" sampleBlock "[True, False, True, True]"]
  by simp

section \<open>The in-set filter on a uint8 column\<close>












end
